theory Spec2Isabelle
  imports Main "HOL-Library.AList" "HOL-Library.Sublist"
begin

section \<open>Python strings\<close>

text \<open>
  A Python \<open>str\<close> is a sequence of code points. It is modelled as a \<open>string\<close> whose
  characters stand for the code points U+0000 .. U+00FF, so \<open>length\<close> is Python's
  \<open>len\<close>. The character classes below are Python's on that range: \<open>str.isspace\<close>,
  \<open>str.isdigit\<close> (which accepts the superscript digits U+00B2, U+00B3, U+00B9) and the
  regular expression class \<open>\d\<close> (decimal digits only).
\<close>

definition py_isspace :: "char \<Rightarrow> bool" where
  "py_isspace c = (c \<in> set [CHR 0x09, CHR 0x0A, CHR 0x0B, CHR 0x0C, CHR 0x0D,
      CHR 0x1C, CHR 0x1D, CHR 0x1E, CHR 0x1F, CHR 0x20, CHR 0x85, CHR 0xA0])"

definition re_digit :: "char \<Rightarrow> bool" where
  "re_digit c = (c \<in> set ''0123456789'')"

definition isdigit_char :: "char \<Rightarrow> bool" where
  "isdigit_char c = (re_digit c \<or> c \<in> set [CHR 0xB2, CHR 0xB3, CHR 0xB9])"

text \<open>\<open>s.isdigit()\<close>: every character is a digit and there is at least one.\<close>

definition isdigit :: "string \<Rightarrow> bool" where
  "isdigit s = (s \<noteq> [] \<and> list_all isdigit_char s)"

text \<open>\<open>s.strip()\<close> with no argument.\<close>

definition strip :: "string \<Rightarrow> string" where
  "strip s = rev (dropWhile py_isspace (rev (dropWhile py_isspace s)))"

text \<open>\<open>_strip(s)\<close>: \<open>None\<close> becomes the empty string.\<close>

definition strip_opt :: "string option \<Rightarrow> string" where
  "strip_opt v = (case v of None \<Rightarrow> [] | Some s \<Rightarrow> strip s)"

text \<open>
  \<open>s.upper()\<close> and \<open>s.lower()\<close>. On U+0000 .. U+00FF \<open>lower\<close> is Python's, and so is
  \<open>upper\<close> (U+00DF upper-cases to two characters) except at U+00B5 and U+00FF: their
  upper case (U+039C and U+0178) lies beyond U+00FF and is no character of the model,
  which leaves these two characters unchanged. The program upper-cases three things: the
  column letters of a cell reference (ASCII letters, by the pattern that selects them);
  the \<open>Action\<close> field, which is only looked up among the ASCII keys of \<open>maint_code\<close>,
  so that neither reading of the two characters finds a key and \<open>maint_code (action_of r)\<close>
  is the program's value for every row; and the \<open>File_Type\<close> setting, which is copied
  into the \<open>BGN\<close> segment, where for a setting that holds one of the two characters the
  model's last element differs from the program's in that character and in nothing else.
\<close>

definition ascii_lower :: string where
  "ascii_lower = ''abcdefghijklmnopqrstuvwxyz''"

definition ascii_upper :: string where
  "ascii_upper = ''ABCDEFGHIJKLMNOPQRSTUVWXYZ''"

definition latin_lower :: string where
  "latin_lower = [CHR 0xE0, CHR 0xE1, CHR 0xE2, CHR 0xE3, CHR 0xE4, CHR 0xE5, CHR 0xE6,
     CHR 0xE7, CHR 0xE8, CHR 0xE9, CHR 0xEA, CHR 0xEB, CHR 0xEC, CHR 0xED, CHR 0xEE,
     CHR 0xEF, CHR 0xF0, CHR 0xF1, CHR 0xF2, CHR 0xF3, CHR 0xF4, CHR 0xF5, CHR 0xF6,
     CHR 0xF8, CHR 0xF9, CHR 0xFA, CHR 0xFB, CHR 0xFC, CHR 0xFD, CHR 0xFE]"

definition latin_upper :: string where
  "latin_upper = [CHR 0xC0, CHR 0xC1, CHR 0xC2, CHR 0xC3, CHR 0xC4, CHR 0xC5, CHR 0xC6,
     CHR 0xC7, CHR 0xC8, CHR 0xC9, CHR 0xCA, CHR 0xCB, CHR 0xCC, CHR 0xCD, CHR 0xCE,
     CHR 0xCF, CHR 0xD0, CHR 0xD1, CHR 0xD2, CHR 0xD3, CHR 0xD4, CHR 0xD5, CHR 0xD6,
     CHR 0xD8, CHR 0xD9, CHR 0xDA, CHR 0xDB, CHR 0xDC, CHR 0xDD, CHR 0xDE]"

definition upper_char :: "char \<Rightarrow> string" where
  "upper_char c =
     (if c = CHR 0xDF then ''SS''
      else case map_of (zip (ascii_lower @ latin_lower) (ascii_upper @ latin_upper)) c of
             Some u \<Rightarrow> [u]
           | None \<Rightarrow> [c])"

definition upper :: "string \<Rightarrow> string" where
  "upper s = concat (map upper_char s)"



text \<open>\<open>s.ljust(w)\<close> and \<open>s.zfill(w)\<close> (which keeps a leading sign in front).\<close>

definition ljust :: "nat \<Rightarrow> string \<Rightarrow> string" where
  "ljust w s = s @ replicate (w - length s) CHR '' ''"

definition zfill :: "nat \<Rightarrow> string \<Rightarrow> string" where
  "zfill w s =
     (if w \<le> length s then s
      else case s of
             c # rest \<Rightarrow>
               if c = CHR ''+'' \<or> c = CHR ''-''
               then c # replicate (w - length s) CHR ''0'' @ rest
               else replicate (w - length s) CHR ''0'' @ s
           | [] \<Rightarrow> replicate w CHR ''0'')"

text \<open>\<open>sep.join(xs)\<close> and \<open>s.split(sep)\<close> for a one-character separator.\<close>

fun join :: "string \<Rightarrow> string list \<Rightarrow> string" where
  "join sep [] = []"
| "join sep [x] = x"
| "join sep (x # y # ys) = x @ sep @ join sep (y # ys)"

fun split :: "char \<Rightarrow> string \<Rightarrow> string list" where
  "split sep [] = [[]]"
| "split sep (c # cs) =
     (if c = sep then [] # split sep cs
      else case split sep cs of
             p # ps \<Rightarrow> (c # p) # ps
           | [] \<Rightarrow> [[c]])"

subsection \<open>Numbers and text\<close>

definition digit_char :: "nat \<Rightarrow> char" where
  "digit_char d = ''0123456789'' ! d"

text \<open>\<open>str(n)\<close> for an integer.\<close>

function str_nat :: "nat \<Rightarrow> string" where
  "str_nat n = (if n < 10 then [digit_char n] else str_nat (n div 10) @ [digit_char (n mod 10)])"
  by pat_completeness auto
termination
  by (relation "measure id") auto

declare str_nat.simps [simp del]

definition str_int :: "int \<Rightarrow> string" where
  "str_int i = (if i < 0 then CHR ''-'' # str_nat (nat (- i)) else str_nat (nat i))"

text \<open>The format \<open>:02d\<close> on a non-negative integer.\<close>

definition fmt_02d :: "nat \<Rightarrow> string" where
  "fmt_02d n = (if n < 10 then CHR ''0'' # str_nat n else str_nat n)"

definition digit_val :: "char \<Rightarrow> nat" where
  "digit_val c = (case map_of (zip ''0123456789'' [0, 1, 2, 3, 4, 5, 6, 7, 8, 9]) c of
                    Some d \<Rightarrow> d | None \<Rightarrow> 0)"

text \<open>The value of a string of decimal digits, as \<open>int\<close> reads it.\<close>

definition nat_of_digits :: "string \<Rightarrow> nat" where
  "nat_of_digits ds = foldl (\<lambda>acc c. 10 * acc + digit_val c) 0 ds"

section \<open>EDI helpers\<close>

datatype error = ValueError string | KeyError string | StopIteration

definition SEG_TERM :: string where "SEG_TERM = ''~''"
definition ELEM_SEP :: string where "ELEM_SEP = ''*''"

definition seg :: "string list \<Rightarrow> string" where
  "seg elements = join ELEM_SEP elements @ SEG_TERM"

subsection \<open>The date normalizer\<close>

text \<open>The three regular expressions of \<open>yyyymmdd\<close>, each matched against the whole
  stripped string (which has no trailing newline), returning the groups.\<close>

definition match_iso :: "string \<Rightarrow> (string \<times> string \<times> string) option" where
  "match_iso s =
     (if length s = 10 \<and> list_all re_digit (take 4 s) \<and> s ! 4 = CHR ''-''
         \<and> list_all re_digit (take 2 (drop 5 s)) \<and> s ! 7 = CHR ''-''
         \<and> list_all re_digit (drop 8 s)
      then Some (take 4 s, take 2 (drop 5 s), drop 8 s) else None)"

definition match_numeric :: "string \<Rightarrow> bool" where
  "match_numeric s =
     (case split CHR ''.'' s of
        [a] \<Rightarrow> a \<noteq> [] \<and> list_all re_digit a
      | [a, b] \<Rightarrow> a \<noteq> [] \<and> list_all re_digit a \<and> b \<noteq> [] \<and> list_all re_digit b
      | _ \<Rightarrow> False)"

definition match_mdy :: "string \<Rightarrow> (string \<times> string \<times> string) option" where
  "match_mdy s =
     (case split CHR ''/'' s of
        [mm, dd, yy] \<Rightarrow>
          if mm \<noteq> [] \<and> length mm \<le> 2 \<and> list_all re_digit mm
             \<and> dd \<noteq> [] \<and> length dd \<le> 2 \<and> list_all re_digit dd
             \<and> length yy = 4 \<and> list_all re_digit yy
          then Some (mm, dd, yy) else None
      | _ \<Rightarrow> None)"

definition bad_date :: "string \<Rightarrow> error" where
  "bad_date s = ValueError (''Bad date '' @ [CHR 0x27] @ s @ [CHR 0x27]
                            @ '' (expected YYYYMMDD or YYYY-MM-DD)'')"

text \<open>
  \<open>yyyymmdd\<close>. The parameter \<open>excel\<close> is the body of the \<open>try\<close> block for a numeric
  string: \<open>Some\<close> the formatted date, or \<open>None\<close> when the block raised and the
  exception was swallowed by \<open>except Exception: pass\<close>.
\<close>

definition yyyymmdd :: "(string \<Rightarrow> string option) \<Rightarrow> string \<Rightarrow> error + string" where
  "yyyymmdd excel val =
     (let s = strip val in
      if s = [] then Inr []
      else if length s = 8 \<and> isdigit s then Inr s
      else case match_iso s of
        Some (y, m, d) \<Rightarrow> Inr (y @ m @ d)
      | None \<Rightarrow>
          (case (if match_numeric s then excel s else None) of
             Some r \<Rightarrow> Inr r
           | None \<Rightarrow>
               (case match_mdy s of
                  Some (mm, dd, yy) \<Rightarrow>
                    Inr (yy @ fmt_02d (nat_of_digits mm) @ fmt_02d (nat_of_digits dd))
                | None \<Rightarrow> Inl (bad_date s))))"

text \<open>
  In \<open>generators/mock_834_generator_nolibs.py\<close> the module imports \<open>datetime\<close> only:
  the name \<open>timedelta\<close> is unbound, the \<open>try\<close> block raises \<open>NameError\<close> on every
  input, and the handler swallows it.
\<close>

definition excel_nolibs :: "string \<Rightarrow> string option" where
  "excel_nolibs s = None"

subsection \<open>Spreadsheet serial dates (single-file app)\<close>

text \<open>
  \<open>single_exe/mock_834_onefile_app.py\<close> imports \<open>timedelta\<close>, so its \<open>try\<close> block runs
  \<open>base + timedelta(days=float(s))\<close> with \<open>base = datetime(1899, 12, 30)\<close> and formats
  the sum with \<open>%Y%m%d\<close>. The date of the sum is found by the standard library's
  conversion from a proleptic Gregorian ordinal (day 1 is 0001-01-01), transcribed here.
\<close>

definition DI400Y :: int where "DI400Y = 146097"
definition DI100Y :: int where "DI100Y = 36524"
definition DI4Y :: int where "DI4Y = 1461"
definition MAXORDINAL :: int where "MAXORDINAL = 3652059"

definition DAYS_IN_MONTH :: "int list" where
  "DAYS_IN_MONTH = [-1, 31, 28, 31, 30, 31, 30, 31, 31, 30, 31, 30, 31]"

definition DAYS_BEFORE_MONTH :: "int list" where
  "DAYS_BEFORE_MONTH = [-1, 0, 31, 59, 90, 120, 151, 181, 212, 243, 273, 304, 334]"

definition is_leap :: "int \<Rightarrow> bool" where
  "is_leap year = (year mod 4 = 0 \<and> (year mod 100 \<noteq> 0 \<or> year mod 400 = 0))"

definition days_in_month :: "int \<Rightarrow> int \<Rightarrow> int" where
  "days_in_month year month =
     (if month = 2 \<and> is_leap year then 29 else DAYS_IN_MONTH ! nat month)"

definition days_before_year :: "int \<Rightarrow> int" where
  "days_before_year year =
     (let y = year - 1 in y * 365 + y div 4 - y div 100 + y div 400)"

definition days_before_month :: "int \<Rightarrow> int \<Rightarrow> int" where
  "days_before_month year month =
     DAYS_BEFORE_MONTH ! nat month + (if month > 2 \<and> is_leap year then 1 else 0)"

definition ymd2ord :: "int \<Rightarrow> int \<Rightarrow> int \<Rightarrow> int" where
  "ymd2ord year month day = days_before_year year + days_before_month year month + day"

definition ord2ymd :: "int \<Rightarrow> int \<times> int \<times> int" where
  "ord2ymd ordinal =
     (let n0 = ordinal - 1;
          n400 = n0 div DI400Y; na = n0 mod DI400Y;
          n100 = na div DI100Y; nb = na mod DI100Y;
          n4 = nb div DI4Y; nc = nb mod DI4Y;
          n1 = nc div 365; n = nc mod 365;
          year = n400 * 400 + 1 + n100 * 100 + n4 * 4 + n1
      in if n1 = 4 \<or> n100 = 4 then (year - 1, 12, 31)
         else
           let leapyear = (n1 = 3 \<and> (n4 \<noteq> 24 \<or> n100 = 3));
               month = (n + 50) div 32;
               preceding = DAYS_BEFORE_MONTH ! nat month
                           + (if month > 2 \<and> leapyear then 1 else 0)
           in if preceding > n
              then (year, month - 1,
                    n - (preceding - (DAYS_IN_MONTH ! nat (month - 1)
                                      + (if month - 1 = 2 \<and> leapyear then 1 else 0))) + 1)
              else (year, month, n - preceding + 1))"

text \<open>\<open>strftime("%Y%m%d")\<close> for a year of four digits.\<close>

definition strftime_Ymd :: "int \<times> int \<times> int \<Rightarrow> string" where
  "strftime_Ymd d = (case d of (y, m, dd) \<Rightarrow> str_int y @ fmt_02d (nat m) @ fmt_02d (nat dd))"

definition EPOCH_ORDINAL :: int where
  "EPOCH_ORDINAL = ymd2ord 1899 12 30"

text \<open>
  The \<open>try\<close> block of the app, for a string that matched \<open>^\d+(\.\d+)?$\<close>. With \<open>n\<close>
  the integer part, \<open>float(s)\<close> lies between \<open>n\<close> and \<open>n + 1\<close>, and the sum falls on
  day \<open>n\<close> after the epoch, or on day \<open>n + 1\<close> when double-precision rounding (in
  \<open>float\<close> or in \<open>timedelta\<close>, to whole microseconds) carries the time of day up to a full
  day. That rounding is not part of this model: \<open>carry s\<close> says whether it happens for
  \<open>s\<close>, and it is asked only when \<open>s\<close> has a fractional part. A sum beyond 9999-12-31
  raises \<open>OverflowError\<close> (as does a day count above 999999999), which the handler
  swallows.
\<close>

definition excel_app :: "(string \<Rightarrow> bool) \<Rightarrow> string \<Rightarrow> string option" where
  "excel_app carry s =
     (let parts = split CHR ''.'' s;
          n = nat_of_digits (hd parts);
          k = (if length parts = 2 \<and> carry s then n + 1 else n)
      in if EPOCH_ORDINAL + int k \<le> MAXORDINAL
         then Some (strftime_Ymd (ord2ymd (EPOCH_ORDINAL + int k)))
         else None)"

text \<open>The rounding that never carries.\<close>

definition no_carry :: "string \<Rightarrow> bool" where
  "no_carry s = False"

section \<open>The spreadsheet reader\<close>

text \<open>
  A Python \<open>dict\<close> is an association list in insertion order with distinct keys:
  \<open>d.get(k)\<close> is \<open>map_of d k\<close> and \<open>d[k] = v\<close> is \<open>AList.update k v d\<close>, which
  overwrites in place or appends.
\<close>

type_synonym ('k, 'v) dict = "('k \<times> 'v) list"
type_synonym row = "(string, string) dict"

subsection \<open>Cell grid extractor\<close>

text \<open>
  \<open>int(raw)\<close> on a string: surrounding white space, an optional sign, then decimal
  digits, where single underscores may stand between digits. \<open>None\<close> is
  \<open>ValueError\<close>.
\<close>

definition int_space :: "char \<Rightarrow> bool" where
  "int_space c = (c \<in> set [CHR 0x09, CHR 0x0A, CHR 0x0B, CHR 0x0C, CHR 0x0D, CHR 0x20,
      CHR 0x85, CHR 0xA0])"

fun digits_ok :: "string \<Rightarrow> bool" where
  "digits_ok [] = False"
| "digits_ok [c] = re_digit c"
| "digits_ok (c # d # cs) =
     (re_digit c \<and> (if d = CHR ''_'' then digits_ok cs else digits_ok (d # cs)))"

definition py_int :: "string \<Rightarrow> int option" where
  "py_int raw =
     (let t = rev (dropWhile int_space (rev (dropWhile int_space raw)));
          neg = (t \<noteq> [] \<and> hd t = CHR ''-'');
          body = (if t \<noteq> [] \<and> (hd t = CHR ''+'' \<or> hd t = CHR ''-'') then tl t else t)
      in if digits_ok body
         then let n = int (nat_of_digits (filter (\<lambda>c. c \<noteq> CHR ''_'') body))
              in Some (if neg then - n else n)
         else None)"

text \<open>\<open>xs[i]\<close>: a negative index counts from the end; \<open>None\<close> is \<open>IndexError\<close>.\<close>

definition list_get :: "'a list \<Rightarrow> int \<Rightarrow> 'a option" where
  "list_get xs i =
     (let n = int (length xs); j = (if i < 0 then n + i else i)
      in if 0 \<le> j \<and> j < n then Some (xs ! nat j) else None)"

text \<open>
  The value of one cell element (\<open>parse_sheet\<close>, the body of the loop): \<open>t\<close> is the
  attribute \<open>t\<close> and \<open>v\<close> the text of the child \<open>v\<close>, \<open>None\<close> when there is no such
  child or it has no text. Both exceptions of the \<open>try\<close> block end in \<open>value = raw\<close>.
\<close>

definition cell_value :: "string list \<Rightarrow> string \<Rightarrow> string option \<Rightarrow> string" where
  "cell_value shared_strings t v =
     (case v of
        None \<Rightarrow> []
      | Some raw \<Rightarrow>
          if t = ''s''
          then (case py_int raw of
                  None \<Rightarrow> raw
                | Some i \<Rightarrow> (case list_get shared_strings i of None \<Rightarrow> raw | Some x \<Rightarrow> x))
          else raw)"

definition col_letters_to_index :: "string \<Rightarrow> int" where
  "col_letters_to_index col =
     foldl (\<lambda>n ch. n * 26 + (int (of_char ch) - int (of_char CHR ''A'') + 1)) 0 (upper col)"

definition ascii_letter :: "char \<Rightarrow> bool" where
  "ascii_letter c = (c \<in> set (ascii_upper @ ascii_lower))"

text \<open>\<open>_cell_ref_to_rc\<close>; the \<open>$\<close> of the pattern also matches before one final
  newline.\<close>

definition cell_ref_to_rc :: "string \<Rightarrow> int \<times> int" where
  "cell_ref_to_rc ref =
     (let body = (if ref \<noteq> [] \<and> last ref = CHR 0x0A then butlast ref else ref);
          letters = takeWhile ascii_letter body;
          digits = dropWhile ascii_letter body
      in if letters \<noteq> [] \<and> digits \<noteq> [] \<and> list_all re_digit digits
         then (int (nat_of_digits digits), col_letters_to_index letters)
         else (0, 0))"

record cell =
  cell_r :: string
  cell_t :: string
  cell_v :: "string option"

type_synonym grid = "(int \<times> int, string) dict"

definition parse_sheet :: "string list \<Rightarrow> cell list \<Rightarrow> grid" where
  "parse_sheet shared_strings cs =
     foldl (\<lambda>cells c. AList.update (cell_ref_to_rc (cell_r c))
                         (cell_value shared_strings (cell_t c) (cell_v c)) cells) [] cs"

subsection \<open>Table projector\<close>

definition cell_at :: "grid \<Rightarrow> int \<Rightarrow> int \<Rightarrow> string" where
  "cell_at cells r c = strip (case map_of cells (r, c) of None \<Rightarrow> [] | Some v \<Rightarrow> v)"


definition max_col :: "grid \<Rightarrow> int" where
  "max_col cells = Max (set (map (\<lambda>kv. snd (fst kv)) cells))"

text \<open>\<open>range(a, b)\<close> over the integers.\<close>

definition range :: "int \<Rightarrow> int \<Rightarrow> int list" where
  "range a b = [a..b - 1]"







section \<open>The transaction assembler\<close>

text \<open>\<open>_strip(r.get(key))\<close>.\<close>

definition field :: "row \<Rightarrow> string \<Rightarrow> string" where
  "field r key = strip_opt (map_of r key)"

text \<open>\<open>_strip(settings.get(key, default))\<close>.\<close>

definition setting :: "row \<Rightarrow> string \<Rightarrow> string \<Rightarrow> string" where
  "setting settings key dflt = strip (case map_of settings key of None \<Rightarrow> dflt | Some v \<Rightarrow> v)"

text \<open>\<open>_strip(r.get("Action") or "ADD").upper()\<close>.\<close>

definition action_of :: "row \<Rightarrow> string" where
  "action_of r =
     upper (strip (case map_of r ''Action'' of
                     None \<Rightarrow> ''ADD''
                   | Some a \<Rightarrow> if a = [] then ''ADD'' else a))"

definition maint_code :: "string \<Rightarrow> string" where
  "maint_code action =
     (case map_of [(''ADD'', ''001''), (''CHG'', ''002''), (''TERM'', ''024'')] action of
        None \<Rightarrow> ''001'' | Some c \<Rightarrow> c)"

definition rel_code_of :: "string \<Rightarrow> string" where
  "rel_code_of rel =
     (case map_of [(''SPO'', ''01''), (''CHD'', ''19'')] rel of None \<Rightarrow> ''34'' | Some c \<Rightarrow> c)"

definition plan_missing :: "string \<Rightarrow> error" where
  "plan_missing key =
     KeyError (''Plan_Key '' @ [CHR 0x27] @ key @ [CHR 0x27] @ '' not found in Plans sheet.'')"

definition build_plan_map :: "row list \<Rightarrow> (string, row) dict" where
  "build_plan_map plans =
     foldl (\<lambda>pm r. let key = field r ''Plan_Key''
                    in if key \<noteq> [] then AList.update key r pm else pm) [] plans"

text \<open>\<open>deps_by_sub.setdefault(sid, []).append(d)\<close> for every dependent with an
  identifier.\<close>

definition index_deps :: "row list \<Rightarrow> (string, row list) dict" where
  "index_deps deps =
     foldl (\<lambda>ix d. let sid = field d ''Subscriber_ID''
                    in if sid = [] then ix
                       else AList.update sid
                              ((case map_of ix sid of None \<Rightarrow> [] | Some ds \<Rightarrow> ds) @ [d]) ix)
           [] deps"

text \<open>
  The list \<open>edi\<close> only grows by \<open>append\<close> until the trailer is patched, and an exception
  discards it. Each loop body is modelled by the segments it appends, or the exception it
  raises; a loop appends what its bodies append, in order, and stops at the first
  exception.
\<close>

fun append_each :: "('a \<Rightarrow> error + string list) \<Rightarrow> 'a list \<Rightarrow> error + string list" where
  "append_each body [] = Inr []"
| "append_each body (x # xs) =
     (case body x of
        Inl e \<Rightarrow> Inl e
      | Inr segs \<Rightarrow>
          (case append_each body xs of
             Inl e \<Rightarrow> Inl e
           | Inr rest \<Rightarrow> Inr (segs @ rest)))"

text \<open>\<open>a or b\<close> on strings, and \<open>if c: edi.append(s)\<close> as the list it appends.\<close>

definition or_else :: "string \<Rightarrow> string \<Rightarrow> string" where
  "or_else a b = (if a = [] then b else a)"

definition append_if :: "bool \<Rightarrow> string \<Rightarrow> string list" where
  "append_if c s = (if c then [s] else [])"

text \<open>The body of the loop over the dependents of one subscriber.\<close>

definition dependent_segments ::
  "(string \<Rightarrow> string option) \<Rightarrow> (string, row) dict \<Rightarrow> string \<Rightarrow> string \<Rightarrow> string \<Rightarrow> string
     \<Rightarrow> row \<Rightarrow> error + string list" where
  "dependent_segments excel plan_map sub_id cov_start cov_end plan_key d =
     (let dep_id = field d ''Dep_ID'';
          rel = field d ''Relationship'';
          d_ssn = field d ''Dep_SSN'';
          d_last = field d ''Dep_Last'';
          d_first = field d ''Dep_First'';
          d_mid = field d ''Dep_Middle''
      in case yyyymmdd excel (field d ''Dep_DOB'') of
        Inl e \<Rightarrow> Inl e
      | Inr d_dob \<Rightarrow>
     (let d_gender = field d ''Dep_Gender'';
          d_action = action_of d
      in case yyyymmdd excel (field d ''Coverage_Start'') of
        Inl e \<Rightarrow> Inl e
      | Inr own_start \<Rightarrow>
     (case yyyymmdd excel (field d ''Coverage_End'') of
        Inl e \<Rightarrow> Inl e
      | Inr own_end \<Rightarrow>
     (let d_start = or_else own_start cov_start;
          d_end = or_else own_end cov_end;
          d_plan_key = or_else (field d ''Plan_Key'') plan_key;
          d_mtc = maint_code d_action;
          rel_code = rel_code_of rel;
          segs =
            [seg [''INS'', ''N'', rel_code, d_mtc, ''XN'', ''A'', ''E'']]
            @ [if isdigit d_ssn \<and> length d_ssn = 9
               then seg [''NM1'', ''IL'', ''1'', d_last, d_first, d_mid, [], [], ''34'', d_ssn]
               else seg [''NM1'', ''IL'', ''1'', d_last, d_first, d_mid, [], [], ''ZZ'',
                         if dep_id \<noteq> [] then sub_id @ ''-'' @ dep_id else sub_id @ ''-DEP'']]
            @ append_if (d_dob \<noteq> [] \<or> d_gender \<noteq> []) (seg [''DMG'', ''D8'', d_dob, d_gender])
            @ append_if (d_start \<noteq> []) (seg [''DTP'', ''356'', ''D8'', d_start])
            @ append_if (d_end \<noteq> []) (seg [''DTP'', ''357'', ''D8'', d_end])
      in if d_plan_key = [] then Inr segs
         else case map_of plan_map d_plan_key of
           None \<Rightarrow> Inl (plan_missing d_plan_key)
         | Some prd \<Rightarrow>
             (let line_d = or_else (field prd ''HD_Insurance_Line_Code'')
                                   (field prd ''Benefit_Type_Code'');
                  plan_desc_d = or_else (field prd ''HD_Plan_Coverage_Desc'') d_plan_key
              in Inr (segs
                      @ [seg [''HD'', ''030'', [], line_d, plan_desc_d, []]]
                      @ append_if (d_start \<noteq> []) (seg [''DTP'', ''348'', ''D8'', d_start])
                      @ append_if (d_end \<noteq> []) (seg [''DTP'', ''349'', ''D8'', d_end])))))))"

text \<open>The body of the loop over the members.\<close>

definition member_segments ::
  "(string \<Rightarrow> string option) \<Rightarrow> (string, row) dict \<Rightarrow> (string, row list) dict
     \<Rightarrow> row \<Rightarrow> error + string list" where
  "member_segments excel plan_map deps_by_sub m =
     (let sub_id = field m ''Subscriber_ID''
      in if sub_id = [] then Inr []
      else
     (let ssn = field m ''Subscriber_SSN'';
          lastn = field m ''Sub_Last'';
          first = field m ''Sub_First'';
          middle = field m ''Sub_Middle''
      in case yyyymmdd excel (field m ''Sub_DOB'') of
        Inl e \<Rightarrow> Inl e
      | Inr dob \<Rightarrow>
     (let gender = field m ''Sub_Gender'';
          addr1 = field m ''Sub_Address1'';
          city = field m ''Sub_City'';
          state = field m ''Sub_State'';
          zipc = field m ''Sub_Zip'';
          emp_status = field m ''Employment_Status'';
          action = action_of m
      in case yyyymmdd excel (field m ''Coverage_Start'') of
        Inl e \<Rightarrow> Inl e
      | Inr cov_start \<Rightarrow>
     (case yyyymmdd excel (field m ''Coverage_End'') of
        Inl e \<Rightarrow> Inl e
      | Inr cov_end \<Rightarrow>
     (let plan_key = field m ''Plan_Key'';
          tier = field m ''Coverage_Tier_Code'';
          mtc = maint_code action;
          segs =
            [seg [''INS'', ''Y'', ''18'', mtc, ''XN'', ''A'', ''E'', [], [], emp_status]]
            @ [if isdigit ssn \<and> length ssn = 9
               then seg [''NM1'', ''IL'', ''1'', lastn, first, middle, [], [], ''34'', ssn]
               else seg [''NM1'', ''IL'', ''1'', lastn, first, middle, [], [], ''ZZ'', sub_id]]
            @ append_if (addr1 \<noteq> []) (seg [''N3'', addr1])
            @ append_if (city \<noteq> [] \<or> state \<noteq> [] \<or> zipc \<noteq> []) (seg [''N4'', city, state, zipc])
            @ append_if (dob \<noteq> [] \<or> gender \<noteq> []) (seg [''DMG'', ''D8'', dob, gender])
            @ append_if (cov_start \<noteq> []) (seg [''DTP'', ''356'', ''D8'', cov_start])
            @ append_if (cov_end \<noteq> []) (seg [''DTP'', ''357'', ''D8'', cov_end]);
          coverage =
            (if plan_key = [] then Inr []
             else case map_of plan_map plan_key of
               None \<Rightarrow> Inl (plan_missing plan_key)
             | Some pr \<Rightarrow>
                 (let line = or_else (field pr ''HD_Insurance_Line_Code'')
                                     (field pr ''Benefit_Type_Code'');
                      plan_desc = or_else (field pr ''HD_Plan_Coverage_Desc'') plan_key
                  in Inr ([seg [''HD'', ''030'', [], line, plan_desc, tier]]
                          @ append_if (cov_start \<noteq> []) (seg [''DTP'', ''348'', ''D8'', cov_start])
                          @ append_if (cov_end \<noteq> []) (seg [''DTP'', ''349'', ''D8'', cov_end]))))
      in case coverage of
        Inl e \<Rightarrow> Inl e
      | Inr cov_segs \<Rightarrow>
          (case append_each
                  (dependent_segments excel plan_map sub_id cov_start cov_end plan_key)
                  (case map_of deps_by_sub sub_id of None \<Rightarrow> [] | Some ds \<Rightarrow> ds) of
             Inl e \<Rightarrow> Inl e
           | Inr dep_segs \<Rightarrow> Inr (segs @ cov_segs @ dep_segs)))))))"

text \<open>\<open>next(i for i, s in enumerate(xs) if p(s))\<close>; \<open>None\<close> is \<open>StopIteration\<close>.\<close>

fun first_index :: "('a \<Rightarrow> bool) \<Rightarrow> 'a list \<Rightarrow> nat option" where
  "first_index p [] = None"
| "first_index p (x # xs) =
     (if p x then Some 0 else map_option Suc (first_index p xs))"

text \<open>
  The clock. \<open>datetime.now()\<close> is read twice: for the default of \<open>As_Of_Date\<close> and for the
  envelope. \<open>%Y\<close> is the year in decimal (four digits from the year 1000 on).
\<close>

record datetime =
  dt_year :: nat
  dt_month :: nat
  dt_day :: nat
  dt_hour :: nat
  dt_minute :: nat

definition strftime_iso :: "datetime \<Rightarrow> string" where
  "strftime_iso t = str_nat (dt_year t) @ ''-'' @ fmt_02d (dt_month t) @ ''-'' @ fmt_02d (dt_day t)"

definition strftime_ymd6 :: "datetime \<Rightarrow> string" where
  "strftime_ymd6 t = fmt_02d (dt_year t mod 100) @ fmt_02d (dt_month t) @ fmt_02d (dt_day t)"

definition strftime_ymd8 :: "datetime \<Rightarrow> string" where
  "strftime_ymd8 t = str_nat (dt_year t) @ fmt_02d (dt_month t) @ fmt_02d (dt_day t)"

definition strftime_HM :: "datetime \<Rightarrow> string" where
  "strftime_HM t = fmt_02d (dt_hour t) @ fmt_02d (dt_minute t)"

text \<open>\<open>tables.get(name) or []\<close>, and \<open>(tables.get("Settings") or [{}])[0]\<close>.\<close>

definition table_of :: "(string, row list) dict \<Rightarrow> string \<Rightarrow> row list" where
  "table_of tables name = (case map_of tables name of None \<Rightarrow> [] | Some rows \<Rightarrow> rows)"

definition settings_of :: "(string, row list) dict \<Rightarrow> row" where
  "settings_of tables = (case table_of tables ''Settings'' of [] \<Rightarrow> [] | r # _ \<Rightarrow> r)"

text \<open>The control numbers read from the settings.\<close>

definition icn_of :: "row \<Rightarrow> string" where
  "icn_of settings = zfill 9 (setting settings ''Interchange_Control (ISA13)'' ''1'')"

definition gcn_of :: "row \<Rightarrow> string" where
  "gcn_of settings = setting settings ''Group_Control (GS06)'' ''1''"

definition tcn_of :: "row \<Rightarrow> string" where
  "tcn_of settings = setting settings ''Transaction_Control (ST02)'' ''1''"

text \<open>The seven segments appended before the member loop.\<close>

definition envelope :: "row \<Rightarrow> string \<Rightarrow> datetime \<Rightarrow> string list" where
  "envelope settings as_of now =
     (let sender = setting settings ''Sender_ID (ISA06)'' ''SENDERID'';
          receiver = setting settings ''Receiver_ID (ISA08)'' ''RECEIVERID'';
          icn = icn_of settings;
          gcn = gcn_of settings;
          tcn = tcn_of settings;
          sponsor_name = setting settings ''Sponsor_Name (Employer)'' ''SPONSOR'';
          sponsor_id = setting settings ''Sponsor_ID (Employer ID)'' ''000000000'';
          payer_name = setting settings ''Payer_Name (Carrier)'' ''PAYER'';
          payer_id = setting settings ''Payer_ID (Carrier ID)'' ''999999'';
          file_type = upper (setting settings ''File_Type'' ''FULL'');
          isa_date = strftime_ymd6 now;
          isa_time = strftime_HM now;
          gs_date = strftime_ymd8 now;
          gs_time = strftime_HM now
      in [seg [''ISA'', ''00'', replicate 10 CHR '' '', ''00'', replicate 10 CHR '' '', ''ZZ'',
               take 15 (ljust 15 sender), ''ZZ'', take 15 (ljust 15 receiver),
               isa_date, isa_time, ''^'', ''00501'', icn, ''0'', ''P'', ''>''],
          seg [''GS'', ''BE'', sender, receiver, gs_date, gs_time, gcn, ''X'', ''005010X220A1''],
          seg [''ST'', ''834'', tcn, ''005010X220A1''],
          seg [''BGN'', ''00'', tcn, gs_date, gs_time, [], [], file_type],
          seg [''DTP'', ''007'', ''D8'', as_of],
          seg [''N1'', ''P5'', sponsor_name, ''FI'', sponsor_id],
          seg [''N1'', ''IN'', payer_name, ''FI'', payer_id]])"

text \<open>
  The trailer count: the placeholder is found by equality, the header by its prefix, and
  the placeholder is replaced by the \<open>SE\<close> segment.
\<close>

definition patch_se_count :: "string list \<Rightarrow> string \<Rightarrow> error + string list" where
  "patch_se_count edi tcn =
     (case first_index (prefix (''ST'' @ ELEM_SEP)) edi of
        None \<Rightarrow> Inl StopIteration
      | Some st_index \<Rightarrow>
     (case first_index (\<lambda>s. s = ''SE_PLACEHOLDER'') edi of
        None \<Rightarrow> Inl StopIteration
      | Some se_index \<Rightarrow>
     (let seg_count = (int se_index - int st_index) + 1
      in Inr (edi[se_index := seg [''SE'', str_int seg_count, tcn]]))))"

text \<open>
  The assembly, from the tables that \<open>read_xlsx_tables\<close> returned to the list \<open>edi\<close>
  that \<open>main\<close> writes out joined by newlines (\<open>generate_834_from_xlsx\<close> returns the list).
  \<open>Inl\<close> is the exception that leaves the function; nothing is written then.
\<close>

definition assemble ::
  "(string \<Rightarrow> string option) \<Rightarrow> (string, row list) dict \<Rightarrow> datetime \<Rightarrow> datetime
     \<Rightarrow> error + string list" where
  "assemble excel tables today now =
     (let settings = settings_of tables;
          plans = table_of tables ''Plans'';
          members = table_of tables ''Members'';
          deps = table_of tables ''Dependents''
      in case yyyymmdd excel (setting settings ''As_Of_Date'' (strftime_iso today)) of
        Inl e \<Rightarrow> Inl e
      | Inr as_of \<Rightarrow>
     (let plan_map = build_plan_map plans;
          deps_by_sub = index_deps deps
      in case append_each (member_segments excel plan_map deps_by_sub) members of
        Inl e \<Rightarrow> Inl e
      | Inr loops \<Rightarrow>
          patch_se_count
            (envelope settings as_of now @ loops
             @ [''SE_PLACEHOLDER'', seg [''GE'', ''1'', gcn_of settings],
                seg [''IEA'', ''1'', icn_of settings]])
            (tcn_of settings)))"

text \<open>The two programs differ in the \<open>try\<close> block of the date normalizer only.\<close>

definition main :: "(string, row list) dict \<Rightarrow> datetime \<Rightarrow> datetime \<Rightarrow> error + string list" where
  "main tables today now = assemble excel_nolibs tables today now"

definition generate_834_from_xlsx ::
  "(string \<Rightarrow> bool) \<Rightarrow> (string, row list) dict \<Rightarrow> datetime \<Rightarrow> datetime \<Rightarrow> error + string list" where
  "generate_834_from_xlsx carry tables today now = assemble (excel_app carry) tables today now"

section \<open>Auxiliary notions\<close>

definition loop_tags :: "string list" where
  "loop_tags = [''INS'', ''NM1'', ''N3'', ''N4'', ''DMG'', ''DTP'', ''HD'']"

definition loop_seg :: "string \<Rightarrow> bool" where
  "loop_seg s = list_ex (\<lambda>tag. prefix (tag @ ELEM_SEP) s) loop_tags"

definition deps_for :: "(string, row list) dict \<Rightarrow> string \<Rightarrow> row list" where
  "deps_for deps_by_sub sub_id = (case map_of deps_by_sub sub_id of None \<Rightarrow> [] | Some ds \<Rightarrow> ds)"

definition example_now :: datetime where
  "example_now = \<lparr>dt_year = 2024, dt_month = 3, dt_day = 7, dt_hour = 9, dt_minute = 5\<rparr>"

definition example_member :: row where
  "example_member = [(''Subscriber_ID'', ''1001''), (''Subscriber_SSN'', ''123456789''),
     (''Sub_Last'', ''DOE''), (''Coverage_Start'', ''2024-01-01''), (''Plan_Key'', ''P1'')]"

definition blank_member :: row where
  "blank_member = [(''Subscriber_ID'', '' ''), (''Sub_DOB'', ''junk''), (''Plan_Key'', ''NOPE'')]"

definition example_dependent :: row where
  "example_dependent = [(''Subscriber_ID'', ''1001''), (''Dep_ID'', ''1''), (''Relationship'', ''CHD'')]"

definition orphan_dependent :: row where
  "orphan_dependent = [(''Subscriber_ID'', ''9999''), (''Dep_DOB'', ''junk''), (''Plan_Key'', ''NOPE'')]"

definition example_tables :: "(string, row list) dict" where
  "example_tables =
     [(''Settings'', [[(''Sender_ID (ISA06)'', ''ABC''), (''Receiver_ID (ISA08)'', ''XYZ''),
                      (''Interchange_Control (ISA13)'', ''7'')]]),
      (''Plans'', [[(''Plan_Key'', ''P1''), (''Benefit_Type_Code'', ''HLT'')]]),
      (''Members'', [example_member, blank_member]),
      (''Dependents'', [example_dependent, orphan_dependent])]"

definition example_edi :: "string list" where
  "example_edi =
     [''ISA*00*          *00*          *ZZ*ABC            *ZZ*XYZ            *240307*0905*^*00501*000000007*0*P*>~'',
      ''GS*BE*ABC*XYZ*20240307*0905*1*X*005010X220A1~'',
      ''ST*834*1*005010X220A1~'',
      ''BGN*00*1*20240307*0905***FULL~'',
      ''DTP*007*D8*20240307~'',
      ''N1*P5*SPONSOR*FI*000000000~'',
      ''N1*IN*PAYER*FI*999999~'',
      ''INS*Y*18*001*XN*A*E***~'',
      ''NM1*IL*1*DOE*****34*123456789~'',
      ''DTP*356*D8*20240101~'',
      ''HD*030**HLT*P1*~'',
      ''DTP*348*D8*20240101~'',
      ''INS*N*19*001*XN*A*E~'',
      ''NM1*IL*1******ZZ*1001-1~'',
      ''DTP*356*D8*20240101~'',
      ''HD*030**HLT*P1*~'',
      ''DTP*348*D8*20240101~'',
      ''SE*16*1~'',
      ''GE*1*1~'',
      ''IEA*1*000000007~'']"

text \<open>
  A run whose only subscriber has an SSN field of nine characters that \<open>str.isdigit\<close>
  accepts and that are not nine decimal digits.
\<close>

definition superscript_ssn :: string where
  "superscript_ssn = [CHR 0xB9, CHR 0xB2, CHR 0xB3] @ ''456789''"

definition superscript_member :: row where
  "superscript_member = [(''Subscriber_ID'', ''1001''), (''Subscriber_SSN'', superscript_ssn),
     (''Sub_Last'', ''DOE'')]"

definition superscript_tables :: "(string, row list) dict" where
  "superscript_tables =
     [(''Settings'', []), (''Plans'', []), (''Members'', [superscript_member]),
      (''Dependents'', [])]"

definition superscript_edi :: "string list" where
  "superscript_edi =
     [''ISA*00*          *00*          *ZZ*SENDERID       *ZZ*RECEIVERID     *240307*0905*^*00501*000000001*0*P*>~'',
      ''GS*BE*SENDERID*RECEIVERID*20240307*0905*1*X*005010X220A1~'',
      ''ST*834*1*005010X220A1~'',
      ''BGN*00*1*20240307*0905***FULL~'',
      ''DTP*007*D8*20240307~'',
      ''N1*P5*SPONSOR*FI*000000000~'',
      ''N1*IN*PAYER*FI*999999~'',
      ''INS*Y*18*001*XN*A*E***~'',
      ''NM1*IL*1*DOE*****34*'' @ superscript_ssn @ ''~'',
      ''SE*8*1~'',
      ''GE*1*1~'',
      ''IEA*1*000000001~'']"

definition dep_own_segs :: "string \<Rightarrow> row \<Rightarrow> string \<Rightarrow> string \<Rightarrow> string \<Rightarrow> string list" where
  "dep_own_segs sid d d_dob d_start d_end =
     [seg [''INS'', ''N'', rel_code_of (field d ''Relationship''),
           maint_code (action_of d), ''XN'', ''A'', ''E'']]
     @ [if isdigit (field d ''Dep_SSN'') \<and> length (field d ''Dep_SSN'') = 9
        then seg [''NM1'', ''IL'', ''1'', field d ''Dep_Last'', field d ''Dep_First'',
                  field d ''Dep_Middle'', [], [], ''34'', field d ''Dep_SSN'']
        else seg [''NM1'', ''IL'', ''1'', field d ''Dep_Last'', field d ''Dep_First'',
                  field d ''Dep_Middle'', [], [], ''ZZ'',
                  if field d ''Dep_ID'' \<noteq> [] then sid @ ''-'' @ field d ''Dep_ID''
                  else sid @ ''-DEP'']]
     @ append_if (d_dob \<noteq> [] \<or> field d ''Dep_Gender'' \<noteq> [])
         (seg [''DMG'', ''D8'', d_dob, field d ''Dep_Gender''])
     @ append_if (d_start \<noteq> []) (seg [''DTP'', ''356'', ''D8'', d_start])
     @ append_if (d_end \<noteq> []) (seg [''DTP'', ''357'', ''D8'', d_end])"

definition dep_plan_segs :: "row \<Rightarrow> string \<Rightarrow> string \<Rightarrow> string \<Rightarrow> string list" where
  "dep_plan_segs prd k d_start d_end =
     [seg [''HD'', ''030'', [],
           or_else (field prd ''HD_Insurance_Line_Code'') (field prd ''Benefit_Type_Code''),
           or_else (field prd ''HD_Plan_Coverage_Desc'') k, []]]
     @ append_if (d_start \<noteq> []) (seg [''DTP'', ''348'', ''D8'', d_start])
     @ append_if (d_end \<noteq> []) (seg [''DTP'', ''349'', ''D8'', d_end])"

definition sub_own_segs :: "row \<Rightarrow> string \<Rightarrow> string \<Rightarrow> string \<Rightarrow> string list" where
  "sub_own_segs m dob cov_start cov_end =
     [seg [''INS'', ''Y'', ''18'', maint_code (action_of m), ''XN'', ''A'', ''E'', [], [],
           field m ''Employment_Status'']]
     @ [if isdigit (field m ''Subscriber_SSN'') \<and> length (field m ''Subscriber_SSN'') = 9
        then seg [''NM1'', ''IL'', ''1'', field m ''Sub_Last'', field m ''Sub_First'',
                  field m ''Sub_Middle'', [], [], ''34'', field m ''Subscriber_SSN'']
        else seg [''NM1'', ''IL'', ''1'', field m ''Sub_Last'', field m ''Sub_First'',
                  field m ''Sub_Middle'', [], [], ''ZZ'', field m ''Subscriber_ID'']]
     @ append_if (field m ''Sub_Address1'' \<noteq> []) (seg [''N3'', field m ''Sub_Address1''])
     @ append_if (field m ''Sub_City'' \<noteq> [] \<or> field m ''Sub_State'' \<noteq> [] \<or> field m ''Sub_Zip'' \<noteq> [])
         (seg [''N4'', field m ''Sub_City'', field m ''Sub_State'', field m ''Sub_Zip''])
     @ append_if (dob \<noteq> [] \<or> field m ''Sub_Gender'' \<noteq> [])
         (seg [''DMG'', ''D8'', dob, field m ''Sub_Gender''])
     @ append_if (cov_start \<noteq> []) (seg [''DTP'', ''356'', ''D8'', cov_start])
     @ append_if (cov_end \<noteq> []) (seg [''DTP'', ''357'', ''D8'', cov_end])"

definition sub_plan_segs :: "(string, row) dict \<Rightarrow> row \<Rightarrow> string \<Rightarrow> string \<Rightarrow> string list" where
  "sub_plan_segs pm m cov_start cov_end =
     (if field m ''Plan_Key'' = [] then []
      else case map_of pm (field m ''Plan_Key'') of
             None \<Rightarrow> []
           | Some pr \<Rightarrow>
               [seg [''HD'', ''030'', [],
                     or_else (field pr ''HD_Insurance_Line_Code'') (field pr ''Benefit_Type_Code''),
                     or_else (field pr ''HD_Plan_Coverage_Desc'') (field m ''Plan_Key''),
                     field m ''Coverage_Tier_Code'']]
               @ append_if (cov_start \<noteq> []) (seg [''DTP'', ''348'', ''D8'', cov_start])
               @ append_if (cov_end \<noteq> []) (seg [''DTP'', ''349'', ''D8'', cov_end]))"












text \<open>
  The table of a list sheet in the words of the specification, to be compared with
  \<open>sheet_table\<close>: the retained columns are the columns, among 1 to the largest column of
  the grid, whose cell in row 1 (the header) is not empty; the record of a row maps the
  header of each retained column to the cell of the row in that column (where two
  retained columns have the same header, the one further right gives the value); a row is
  blank when all its retained values are empty; the table holds the records of the rows 2
  to the largest row of the grid that are not blank, in order.
\<close>

definition retained_columns :: "grid \<Rightarrow> int list" where
  "retained_columns cells =
     filter (\<lambda>c. cell_at cells 1 c \<noteq> []) (range 1 (max_col cells + 1))"

definition spec_record :: "grid \<Rightarrow> int \<Rightarrow> string \<rightharpoonup> string" where
  "spec_record cells r =
     map_of (rev (map (\<lambda>c. (cell_at cells 1 c, cell_at cells r c)) (retained_columns cells)))"





section \<open>Properties of the date normalizer\<close>

lemma strip_id:
  assumes "s \<noteq> []" "\<not> py_isspace (hd s)" "\<not> py_isspace (last s)"
  shows "strip s = s"
proof -
  from assms have a: "dropWhile py_isspace s = s"
    by (cases s) auto
  from assms have "dropWhile py_isspace (rev s) = rev s"
    by (cases "rev s") (auto simp: hd_rev)
  with a show ?thesis by (simp add: strip_def)
qed

lemma isdigit_char_not_space: "isdigit_char c \<Longrightarrow> \<not> py_isspace c"
  by (auto simp: isdigit_char_def re_digit_def py_isspace_def)

text \<open>
  C7. The date normalizer returns a string of exactly 8 characters, all of them digits,
  unchanged, whatever the numeric branch does and whether or not the digits form a
  calendar date.
\<close>

theorem yyyymmdd_eight_digits_unchanged:
  assumes "length s = 8" and "list_all isdigit_char s"
  shows "yyyymmdd excel s = Inr s"
proof -
  from assms(1) have ne: "s \<noteq> []" by auto
  with assms(2) have "isdigit_char (hd s)" "isdigit_char (last s)"
    by (auto simp: list_all_iff)
  then have "strip s = s"
    using ne by (intro strip_id) (auto dest: isdigit_char_not_space)
  with assms ne show ?thesis
    by (simp add: yyyymmdd_def isdigit_def)
qed

theorem yyyymmdd_eight_digits_unchanged_witness:
  "length ''20240230'' = 8 \<and> list_all isdigit_char ''20240230''
   \<and> yyyymmdd excel_nolibs ''20240230'' = Inr ''20240230''
   \<and> yyyymmdd (excel_app no_carry) ''20240230'' = Inr ''20240230''"
proof -
  have l: "length ''20240230'' = 8" by simp
  have d: "list_all isdigit_char ''20240230''"
    by (simp add: isdigit_char_def re_digit_def)
  show ?thesis
    using l d yyyymmdd_eight_digits_unchanged [OF l d, of excel_nolibs]
      yyyymmdd_eight_digits_unchanged [OF l d, of "excel_app no_carry"]
    by simp
qed

section \<open>Properties of the assembler\<close>

lemma seg_Cons2: "seg (tag # e # es) = tag @ ELEM_SEP @ seg (e # es)"
  by (simp add: seg_def)

lemma loop_seg_seg [simp]:
  "tag \<in> set loop_tags \<Longrightarrow> loop_seg (seg (tag # e # es))"
  unfolding loop_seg_def seg_Cons2 list_ex_iff
  by (rule bexI [of _ tag]) simp_all

lemma loop_seg_if [simp]:
  "loop_seg a \<Longrightarrow> loop_seg b \<Longrightarrow> loop_seg (if c then a else b)"
  by simp

lemma list_all_append_if [simp]: "list_all P (append_if c s) = (c \<longrightarrow> P s)"
  by (simp add: append_if_def)

lemma loop_seg_not_envelope:
  "loop_seg s \<Longrightarrow> \<not> prefix (''ST'' @ ELEM_SEP) s \<and> \<not> prefix (''SE'' @ ELEM_SEP) s \<and> s \<noteq> ''SE_PLACEHOLDER''"
  by (auto simp: loop_seg_def loop_tags_def ELEM_SEP_def prefix_def)

lemma append_each_all:
  assumes "append_each body xs = Inr segs"
    and "\<And>x ss. x \<in> set xs \<Longrightarrow> body x = Inr ss \<Longrightarrow> list_all P ss"
  shows "list_all P segs"
  using assms
proof (induction xs arbitrary: segs)
  case Nil
  then show ?case by simp
next
  case (Cons x xs)
  from Cons.prems(1) obtain ss rest where
    b: "body x = Inr ss" and r: "append_each body xs = Inr rest" and s: "segs = ss @ rest"
    by (auto split: sum.splits)
  have "list_all P ss" using Cons.prems(2) [of x ss] b by simp
  moreover have "list_all P rest"
    by (rule Cons.IH [OF r]) (rule Cons.prems(2), auto)
  ultimately show ?case using s by simp
qed

lemma tags_mem [simp]:
  "''INS'' \<in> set loop_tags" "''NM1'' \<in> set loop_tags" "''N3'' \<in> set loop_tags"
  "''N4'' \<in> set loop_tags" "''DMG'' \<in> set loop_tags" "''DTP'' \<in> set loop_tags"
  "''HD'' \<in> set loop_tags"
  by (simp_all add: loop_tags_def)

lemma dependent_segments_loop_seg:
  "dependent_segments excel pm sid cs ce pk d = Inr segs \<Longrightarrow> list_all loop_seg segs"
  unfolding dependent_segments_def Let_def
  by (auto split: sum.splits option.splits if_splits)

lemma member_segments_loop_seg:
  assumes "member_segments excel pm dbs m = Inr segs"
  shows "list_all loop_seg segs"
proof (cases "field m ''Subscriber_ID'' = []")
  case True
  with assms show ?thesis by (simp add: member_segments_def)
next
  case False
  with assms show ?thesis
    unfolding member_segments_def Let_def
    by (auto split: sum.splits option.splits if_splits
             dest!: append_each_all [where P = loop_seg] dependent_segments_loop_seg)
qed

lemma first_index_append_none:
  "list_all (\<lambda>x. \<not> p x) xs \<Longrightarrow>
   first_index p (xs @ ys) = map_option (\<lambda>i. length xs + i) (first_index p ys)"
proof (induction xs)
  case Nil
  then show ?case by (cases "first_index p ys") simp_all
next
  case (Cons a xs)
  then show ?case by (cases "first_index p ys") simp_all
qed

lemma split_no_sep:
  "sep \<notin> set a \<Longrightarrow> split sep (a @ sep # rest) = a # split sep rest"
  by (induction a) auto

lemma str_nat_digits: "list_all re_digit (str_nat n)"
proof (induction n rule: str_nat.induct)
  case (1 n)
  have d: "re_digit (digit_char k)" if "k < 10" for k
  proof -
    from that have "k \<in> {0, 1, 2, 3, 4, 5, 6, 7, 8, 9}" by auto
    then show ?thesis by (auto simp: digit_char_def re_digit_def)
  qed
  show ?case
  proof (cases "n < 10")
    case True
    then show ?thesis by (subst str_nat.simps) (simp add: d)
  next
    case False
    with 1 show ?thesis by (subst str_nat.simps) (simp add: d)
  qed
qed

lemma str_nat_no_sep: "CHR ''*'' \<notin> set (str_nat n)"
proof
  assume "CHR ''*'' \<in> set (str_nat n)"
  with str_nat_digits [of n] have "re_digit CHR ''*''"
    by (simp add: list_all_iff)
  then show False by (simp add: re_digit_def)
qed

lemma split_SE: "split CHR ''*'' (''SE*'' @ rest) = ''SE'' # split CHR ''*'' rest"
  by simp

lemma se_first_element:
  "split CHR ''*'' (seg [''SE'', str_nat n, tcn]) ! 1 = str_nat n"
proof -
  have "seg [''SE'', str_nat n, tcn] = ''SE*'' @ (str_nat n @ CHR ''*'' # (tcn @ ''~''))"
    by (simp add: seg_def ELEM_SEP_def SEG_TERM_def)
  then show ?thesis
    by (simp only: split_SE split_no_sep [OF str_nat_no_sep] nth_Cons_Suc nth_Cons_0 One_nat_def)
qed

lemma envelope_length: "length (envelope settings as_of now) = 7"
  by (simp add: envelope_def Let_def)

lemma envelope_st: "envelope settings as_of now ! 2 = seg [''ST'', ''834'', tcn_of settings, ''005010X220A1'']"
  by (simp add: envelope_def Let_def)

lemma envelope_first_st:
  "first_index (prefix (''ST'' @ ELEM_SEP)) (envelope settings as_of now @ rest) = Some 2"
  by (simp add: envelope_def Let_def seg_Cons2 ELEM_SEP_def)

lemma envelope_filter_st:
  "filter (prefix (''ST'' @ ELEM_SEP)) (envelope settings as_of now)
    = [seg [''ST'', ''834'', tcn_of settings, ''005010X220A1'']]"
  by (simp add: envelope_def Let_def seg_Cons2 ELEM_SEP_def)

lemma envelope_no_se:
  "list_all (\<lambda>s. \<not> prefix (''SE'' @ ELEM_SEP) s \<and> s \<noteq> ''SE_PLACEHOLDER'') (envelope settings as_of now)"
  by (simp add: envelope_def Let_def seg_Cons2 ELEM_SEP_def)

lemma loops_no_marker:
  assumes "list_all loop_seg loops"
  shows "list_all (\<lambda>s. \<not> prefix (''ST'' @ ELEM_SEP) s) loops"
    and "list_all (\<lambda>s. \<not> prefix (''SE'' @ ELEM_SEP) s) loops"
    and "list_all (\<lambda>s. \<not> s = ''SE_PLACEHOLDER'') loops"
  using assms loop_seg_not_envelope by (auto simp: list_all_iff)

lemma patch_se_count_shape:
  assumes "list_all loop_seg loops"
  shows "patch_se_count (envelope settings as_of now @ loops @ [''SE_PLACEHOLDER'', g, i]) tcn
         = Inr (envelope settings as_of now @ loops
                @ [seg [''SE'', str_nat (length loops + 6), tcn], g, i])"
proof -
  let ?env = "envelope settings as_of now"
  have a: "list_all (\<lambda>s. \<not> s = ''SE_PLACEHOLDER'') (?env @ loops)"
    using envelope_no_se [of settings as_of now] loops_no_marker(3) [OF assms]
    by (auto simp: list_all_iff)
  have se: "first_index (\<lambda>s. s = ''SE_PLACEHOLDER'') (?env @ loops @ [''SE_PLACEHOLDER'', g, i])
            = Some (7 + length loops)"
    using first_index_append_none [OF a, of "[''SE_PLACEHOLDER'', g, i]"]
    by (simp add: envelope_length)
  have upd: "(?env @ loops @ [''SE_PLACEHOLDER'', g, i])[7 + length loops := x]
             = ?env @ loops @ [x, g, i]" for x
    by (simp add: list_update_append envelope_length)
  have cnt: "str_int (int (7 + length loops) - int 2 + 1) = str_nat (length loops + 6)"
  proof -
    have "int (7 + length loops) - int 2 + 1 = int (length loops + 6)" by simp
    then show ?thesis by (simp only: str_int_def nat_int) simp
  qed
  show ?thesis
    unfolding patch_se_count_def envelope_first_st se
    by (simp only: option.case Let_def upd cnt)
qed

lemma assemble_shape:
  assumes "assemble excel tables today now = Inr edi"
  obtains as_of loops where
    "yyyymmdd excel (setting (settings_of tables) ''As_Of_Date'' (strftime_iso today)) = Inr as_of"
    "append_each (member_segments excel (build_plan_map (table_of tables ''Plans''))
                    (index_deps (table_of tables ''Dependents'')))
                 (table_of tables ''Members'') = Inr loops"
    "list_all loop_seg loops"
    "edi = envelope (settings_of tables) as_of now @ loops
           @ [seg [''SE'', str_nat (length loops + 6), tcn_of (settings_of tables)],
              seg [''GE'', ''1'', gcn_of (settings_of tables)],
              seg [''IEA'', ''1'', icn_of (settings_of tables)]]"
proof -
  from assms obtain as_of where
    a: "yyyymmdd excel (setting (settings_of tables) ''As_Of_Date'' (strftime_iso today)) = Inr as_of"
    unfolding assemble_def Let_def by (cases "yyyymmdd excel (setting (settings_of tables) ''As_Of_Date'' (strftime_iso today))") auto
  from assms a obtain loops where
    l: "append_each (member_segments excel (build_plan_map (table_of tables ''Plans''))
                    (index_deps (table_of tables ''Dependents'')))
                 (table_of tables ''Members'') = Inr loops"
    unfolding assemble_def Let_def
    by (cases "append_each (member_segments excel (build_plan_map (table_of tables ''Plans''))
                    (index_deps (table_of tables ''Dependents'')))
                 (table_of tables ''Members'')") auto
  have ls: "list_all loop_seg loops"
    by (rule append_each_all [OF l]) (rule member_segments_loop_seg)
  from assms have "edi = envelope (settings_of tables) as_of now @ loops
           @ [seg [''SE'', str_nat (length loops + 6), tcn_of (settings_of tables)],
              seg [''GE'', ''1'', gcn_of (settings_of tables)],
              seg [''IEA'', ''1'', icn_of (settings_of tables)]]"
    unfolding assemble_def Let_def a l
    by (simp add: patch_se_count_shape [OF ls])
  with a l ls show ?thesis by (rule that)
qed

lemma filter_loops_none:
  "list_all (\<lambda>s. \<not> p s) xs \<Longrightarrow> filter p xs = []"
  by (induction xs) auto

text \<open>
  C1. In every generated sequence there is exactly one segment that starts with \<open>ST*\<close>,
  at index \<open>i\<close>, and exactly one that starts with \<open>SE*\<close>, at index \<open>j\<close>; the first
  data element of the \<open>SE\<close> segment is the decimal numeral of \<open>j - i + 1\<close>, the number of
  segments from the header through the trailer, for any tables.
\<close>

theorem se_count_matches_span:
  assumes "assemble excel tables today now = Inr edi"
  shows "\<exists>i j tcn.
           first_index (prefix ''ST*'') edi = Some i
         \<and> first_index (prefix ''SE*'') edi = Some j
         \<and> i \<le> j \<and> j < length edi
         \<and> filter (prefix ''ST*'') edi = [edi ! i]
         \<and> filter (prefix ''SE*'') edi = [edi ! j]
         \<and> edi ! i = seg [''ST'', ''834'', tcn, ''005010X220A1'']
         \<and> edi ! j = seg [''SE'', str_nat (j - i + 1), tcn]
         \<and> split CHR ''*'' (edi ! j) ! 1 = str_nat (j - i + 1)"
proof -
  from assms obtain as_of loops where
    ls: "list_all loop_seg loops" and
    edi: "edi = envelope (settings_of tables) as_of now @ loops
           @ [seg [''SE'', str_nat (length loops + 6), tcn_of (settings_of tables)],
              seg [''GE'', ''1'', gcn_of (settings_of tables)],
              seg [''IEA'', ''1'', icn_of (settings_of tables)]]"
    by (rule assemble_shape)
  let ?env = "envelope (settings_of tables) as_of now"
  let ?tcn = "tcn_of (settings_of tables)"
  let ?se = "seg [''SE'', str_nat (length loops + 6), ?tcn]"
  let ?tail = "[?se, seg [''GE'', ''1'', gcn_of (settings_of tables)],
                seg [''IEA'', ''1'', icn_of (settings_of tables)]]"
  have st: "first_index (prefix ''ST*'') edi = Some 2"
    using envelope_first_st [of "settings_of tables" as_of now "loops @ ?tail"]
    by (simp add: edi ELEM_SEP_def)
  have nose: "list_all (\<lambda>s. \<not> prefix ''SE*'' s) (?env @ loops)"
    using envelope_no_se [of "settings_of tables" as_of now] loops_no_marker(2) [OF ls]
    by (auto simp: list_all_iff ELEM_SEP_def)
  have se: "first_index (prefix ''SE*'') edi = Some (7 + length loops)"
    using first_index_append_none [OF nose, of ?tail]
    by (simp add: edi envelope_length seg_Cons2 ELEM_SEP_def)
  have fst: "filter (prefix ''ST*'') edi = [seg [''ST'', ''834'', ?tcn, ''005010X220A1'']]"
    using envelope_filter_st [of "settings_of tables" as_of now]
      filter_loops_none [OF loops_no_marker(1) [OF ls]]
    by (simp add: edi ELEM_SEP_def seg_Cons2)
  have fse: "filter (prefix ''SE*'') edi = [?se]"
    using filter_loops_none [OF nose]
    by (simp add: edi seg_Cons2 ELEM_SEP_def)
  have i: "edi ! 2 = seg [''ST'', ''834'', ?tcn, ''005010X220A1'']"
    using envelope_st [of "settings_of tables" as_of now]
    by (simp add: edi nth_append envelope_length)
  have j: "edi ! (7 + length loops) = ?se"
    by (simp add: edi nth_append envelope_length)
  have len: "length edi = 10 + length loops"
    by (simp add: edi envelope_length)
  have cnt: "7 + length loops - 2 + 1 = length loops + 6" by simp
  show ?thesis
    apply (rule exI [of _ 2], rule exI [of _ "7 + length loops"], rule exI [of _ ?tcn])
    apply (simp only: st se fst fse i j cnt se_first_element len)
    apply simp
    done
qed

lemma table_of_update:
  "table_of (AList.update k v tables) k' = (if k' = k then v else table_of tables k')"
  by (simp add: table_of_def update_conv')

lemma settings_of_update:
  "k \<noteq> ''Settings'' \<Longrightarrow> settings_of (AList.update k v tables) = settings_of tables"
  by (simp add: settings_of_def table_of_update)

lemma append_each_skip:
  "body x = Inr [] \<Longrightarrow> append_each body (xs @ x # ys) = append_each body (xs @ ys)"
  by (induction xs) (auto split: sum.splits)

lemma append_each_cong:
  "(\<And>x. x \<in> set xs \<Longrightarrow> f x = g x) \<Longrightarrow> append_each f xs = append_each g xs"
proof (induction xs)
  case Nil
  then show ?case by simp
next
  case (Cons a xs)
  have "append_each f xs = append_each g xs"
    by (rule Cons.IH) (rule Cons.prems, simp)
  moreover have "f a = g a" by (rule Cons.prems) simp
  ultimately show ?case by (simp split: sum.splits)
qed

lemma member_segments_no_id:
  "field m ''Subscriber_ID'' = [] \<Longrightarrow> member_segments excel pm dbs m = Inr []"
  by (simp add: member_segments_def)

text \<open>
  C6. A member row whose \<open>Subscriber_ID\<close> is empty after trimming appends no segment and
  raises nothing (not even for a date or plan key that would be rejected otherwise): the
  outcome of the run is the outcome of the run without the row.
\<close>

theorem member_without_id_skipped:
  assumes "field m ''Subscriber_ID'' = []"
    and "table_of tables ''Members'' = ms1 @ m # ms2"
  shows "member_segments excel pm dbs m = Inr []
       \<and> assemble excel tables today now
         = assemble excel (AList.update ''Members'' (ms1 @ ms2) tables) today now"
proof -
  have skip: "append_each (member_segments excel pm' dbs') (ms1 @ m # ms2)
        = append_each (member_segments excel pm' dbs') (ms1 @ ms2)" for pm' dbs'
    by (rule append_each_skip) (rule member_segments_no_id [OF assms(1)])
  show ?thesis
    by (simp add: assemble_def Let_def table_of_update settings_of_update
        member_segments_no_id [OF assms(1)] assms(2) skip split: sum.splits)
qed

lemma foldl_deps_for:
  assumes step: "\<And>ix d s. deps_for (f ix d) s
                   = deps_for ix s @ (if s \<noteq> [] \<and> key d = s then [d] else [])"
  shows "deps_for (foldl f ix0 deps) s
         = deps_for ix0 s @ (if s = [] then [] else filter (\<lambda>d. key d = s) deps)"
proof (induction deps arbitrary: ix0)
  case Nil
  then show ?case by simp
next
  case (Cons d deps)
  show ?case by (simp add: Cons.IH step)
qed

lemma deps_for_index_deps:
  "deps_for (index_deps deps) s
   = (if s = [] then [] else filter (\<lambda>d. field d ''Subscriber_ID'' = s) deps)"
proof -
  have "deps_for (index_deps deps) s
        = deps_for [] s @ (if s = [] then []
                           else filter (\<lambda>d. field d ''Subscriber_ID'' = s) deps)"
    unfolding index_deps_def
    by (rule foldl_deps_for) (auto simp: Let_def deps_for_def update_conv')
  then show ?thesis by (simp add: deps_for_def)
qed

lemma member_segments_deps_cong:
  assumes "field m ''Subscriber_ID'' \<noteq> [] \<Longrightarrow>
           deps_for dbs (field m ''Subscriber_ID'') = deps_for dbs' (field m ''Subscriber_ID'')"
  shows "member_segments excel pm dbs m = member_segments excel pm dbs' m"
proof (cases "field m ''Subscriber_ID'' = []")
  case True
  then show ?thesis by (simp add: member_segments_no_id)
next
  case False
  from assms [OF False] show ?thesis
    unfolding member_segments_def deps_for_def Let_def
    by (simp cong: sum.case_cong)
qed

text \<open>
  C10. A dependent row whose \<open>Subscriber_ID\<close> is empty after trimming, or is the
  \<open>Subscriber_ID\<close> of no member row, changes nothing: the outcome of the run is the
  outcome of the run without the row.
\<close>

theorem unmatched_dependent_omitted:
  assumes "table_of tables ''Dependents'' = ds1 @ d # ds2"
    and "field d ''Subscriber_ID'' = []
         \<or> (\<forall>m \<in> set (table_of tables ''Members'').
               field m ''Subscriber_ID'' \<noteq> field d ''Subscriber_ID'')"
  shows "assemble excel tables today now
         = assemble excel (AList.update ''Dependents'' (ds1 @ ds2) tables) today now"
proof -
  let ?members = "table_of tables ''Members''"
  have eq: "member_segments excel pm (index_deps (ds1 @ d # ds2)) m
          = member_segments excel pm (index_deps (ds1 @ ds2)) m"
    if "m \<in> set ?members" for m pm
  proof (rule member_segments_deps_cong)
    assume ne: "field m ''Subscriber_ID'' \<noteq> []"
    from assms(2) that ne have "field d ''Subscriber_ID'' \<noteq> field m ''Subscriber_ID''"
      by auto
    then show "deps_for (index_deps (ds1 @ d # ds2)) (field m ''Subscriber_ID'')
             = deps_for (index_deps (ds1 @ ds2)) (field m ''Subscriber_ID'')"
      by (simp add: deps_for_index_deps)
  qed
  have loops: "append_each (member_segments excel pm (index_deps (ds1 @ d # ds2))) ?members
      = append_each (member_segments excel pm (index_deps (ds1 @ ds2))) ?members" for pm
    by (rule append_each_cong) (rule eq)
  show ?thesis
    by (simp add: assemble_def Let_def table_of_update settings_of_update assms(1) loops
        split: sum.splits)
qed

lemma example_run:
  "assemble excel_nolibs example_tables example_now example_now = Inr example_edi"
  by code_simp

lemma example_run_app:
  "assemble (excel_app no_carry) example_tables example_now example_now = Inr example_edi"
  by code_simp

theorem se_count_matches_span_witness:
  "assemble excel_nolibs example_tables example_now example_now = Inr example_edi
   \<and> first_index (prefix ''ST*'') example_edi = Some 2
   \<and> first_index (prefix ''SE*'') example_edi = Some 17
   \<and> example_edi ! 17 = ''SE*16*1~''
   \<and> (\<exists>i j tcn.
           first_index (prefix ''ST*'') example_edi = Some i
         \<and> first_index (prefix ''SE*'') example_edi = Some j
         \<and> i \<le> j \<and> j < length example_edi
         \<and> filter (prefix ''ST*'') example_edi = [example_edi ! i]
         \<and> filter (prefix ''SE*'') example_edi = [example_edi ! j]
         \<and> example_edi ! i = seg [''ST'', ''834'', tcn, ''005010X220A1'']
         \<and> example_edi ! j = seg [''SE'', str_nat (j - i + 1), tcn]
         \<and> split CHR ''*'' (example_edi ! j) ! 1 = str_nat (j - i + 1))"
proof -
  have e: "first_index (prefix ''ST*'') example_edi = Some 2
         \<and> first_index (prefix ''SE*'') example_edi = Some 17
         \<and> example_edi ! 17 = ''SE*16*1~''"
    by code_simp
  from e example_run se_count_matches_span [OF example_run] show ?thesis
    by blast
qed

theorem member_without_id_skipped_witness:
  "field blank_member ''Subscriber_ID'' = []
   \<and> table_of example_tables ''Members'' = [example_member] @ blank_member # []
   \<and> member_segments excel_nolibs [] [] blank_member = Inr []
   \<and> assemble excel_nolibs example_tables example_now example_now
     = assemble excel_nolibs (AList.update ''Members'' ([example_member] @ []) example_tables)
         example_now example_now
   \<and> assemble excel_nolibs example_tables example_now example_now = Inr example_edi"
proof -
  have f: "field blank_member ''Subscriber_ID'' = []" by code_simp
  have t: "table_of example_tables ''Members'' = [example_member] @ blank_member # []"
    by code_simp
  from f t example_run
    member_without_id_skipped [OF f t, of excel_nolibs "[]" "[]" example_now example_now]
  show ?thesis by blast
qed

theorem unmatched_dependent_omitted_witness:
  "table_of example_tables ''Dependents'' = [example_dependent] @ orphan_dependent # []
   \<and> assemble excel_nolibs example_tables example_now example_now
     = assemble excel_nolibs
         (AList.update ''Dependents'' ([example_dependent] @ []) example_tables)
         example_now example_now
   \<and> assemble excel_nolibs example_tables example_now example_now = Inr example_edi"
proof -
  have t: "table_of example_tables ''Dependents'' = [example_dependent] @ orphan_dependent # []"
    by code_simp
  have m: "field orphan_dependent ''Subscriber_ID'' = []
         \<or> (\<forall>m \<in> set (table_of example_tables ''Members'').
               field m ''Subscriber_ID'' \<noteq> field orphan_dependent ''Subscriber_ID'')"
    by code_simp
  from t example_run
    unmatched_dependent_omitted [OF t m, of excel_nolibs example_now example_now]
  show ?thesis by blast
qed

lemma append_each_mem:
  assumes "append_each body xs = Inr segs_all" and "x \<in> set xs"
  obtains pre segs post where "body x = Inr segs" and "segs_all = pre @ segs @ post"
  using assms
proof (induction xs arbitrary: segs_all thesis)
  case Nil
  then show ?case by simp
next
  case (Cons a xs)
  from Cons.prems(2) obtain ss rest where
    b: "body a = Inr ss" and r: "append_each body xs = Inr rest" and s: "segs_all = ss @ rest"
    by (auto split: sum.splits)
  show ?case
  proof (cases "x = a")
    case True
    show ?thesis
      by (rule Cons.prems(1) [of ss "[]" rest]) (simp_all add: True b s)
  next
    case False
    with Cons.prems(3) have "x \<in> set xs" by simp
    from Cons.IH [OF _ r this] obtain pre segs post where
      "body x = Inr segs" and "rest = pre @ segs @ post" by blast
    then show ?thesis
      by (intro Cons.prems(1) [of segs "ss @ pre" post]) (simp_all add: s)
  qed
qed

lemma member_segments_head:
  assumes "member_segments excel pm dbs m = Inr segs"
    and "field m ''Subscriber_ID'' \<noteq> []"
  shows "\<exists>rest. segs =
     seg [''INS'', ''Y'', ''18'', maint_code (action_of m), ''XN'', ''A'', ''E'', [], [],
          field m ''Employment_Status'']
     # (if isdigit (field m ''Subscriber_SSN'') \<and> length (field m ''Subscriber_SSN'') = 9
        then seg [''NM1'', ''IL'', ''1'', field m ''Sub_Last'', field m ''Sub_First'',
                  field m ''Sub_Middle'', [], [], ''34'', field m ''Subscriber_SSN'']
        else seg [''NM1'', ''IL'', ''1'', field m ''Sub_Last'', field m ''Sub_First'',
                  field m ''Sub_Middle'', [], [], ''ZZ'', field m ''Subscriber_ID''])
     # rest"
  using assms unfolding member_segments_def Let_def
  by (auto split: sum.splits option.splits if_splits)

lemma subscriber_nm1_by_isdigit:
  assumes "assemble excel tables today now = Inr edi"
    and "m \<in> set (table_of tables ''Members'')"
    and "field m ''Subscriber_ID'' \<noteq> []"
  shows "\<exists>i. Suc i < length edi
     \<and> edi ! i = seg [''INS'', ''Y'', ''18'', maint_code (action_of m), ''XN'', ''A'', ''E'',
                      [], [], field m ''Employment_Status'']
     \<and> edi ! Suc i =
        (if isdigit (field m ''Subscriber_SSN'') \<and> length (field m ''Subscriber_SSN'') = 9
         then seg [''NM1'', ''IL'', ''1'', field m ''Sub_Last'', field m ''Sub_First'',
                   field m ''Sub_Middle'', [], [], ''34'', field m ''Subscriber_SSN'']
         else seg [''NM1'', ''IL'', ''1'', field m ''Sub_Last'', field m ''Sub_First'',
                   field m ''Sub_Middle'', [], [], ''ZZ'', field m ''Subscriber_ID''])"
proof -
  from assms(1) obtain as_of loops where
    l: "append_each (member_segments excel (build_plan_map (table_of tables ''Plans''))
                    (index_deps (table_of tables ''Dependents'')))
                 (table_of tables ''Members'') = Inr loops" and
    edi: "edi = envelope (settings_of tables) as_of now @ loops
           @ [seg [''SE'', str_nat (length loops + 6), tcn_of (settings_of tables)],
              seg [''GE'', ''1'', gcn_of (settings_of tables)],
              seg [''IEA'', ''1'', icn_of (settings_of tables)]]"
    by (rule assemble_shape)
  from l assms(2) obtain pre segs post where
    b: "member_segments excel (build_plan_map (table_of tables ''Plans''))
          (index_deps (table_of tables ''Dependents'')) m = Inr segs"
    and loops: "loops = pre @ segs @ post"
    by (rule append_each_mem)
  from member_segments_head [OF b assms(3)] obtain rest where
    segs: "segs =
     seg [''INS'', ''Y'', ''18'', maint_code (action_of m), ''XN'', ''A'', ''E'', [], [],
          field m ''Employment_Status'']
     # (if isdigit (field m ''Subscriber_SSN'') \<and> length (field m ''Subscriber_SSN'') = 9
        then seg [''NM1'', ''IL'', ''1'', field m ''Sub_Last'', field m ''Sub_First'',
                  field m ''Sub_Middle'', [], [], ''34'', field m ''Subscriber_SSN'']
        else seg [''NM1'', ''IL'', ''1'', field m ''Sub_Last'', field m ''Sub_First'',
                  field m ''Sub_Middle'', [], [], ''ZZ'', field m ''Subscriber_ID''])
     # rest"
    by blast
  let ?env = "envelope (settings_of tables) as_of now"
  define se where "se = seg [''SE'', str_nat (length loops + 6), tcn_of (settings_of tables)]"
  define more where "more = rest @ post
           @ [se, seg [''GE'', ''1'', gcn_of (settings_of tables)],
              seg [''IEA'', ''1'', icn_of (settings_of tables)]]"
  obtain a b where ab: "segs = a # b # rest" and a: "a = segs ! 0" and b': "b = segs ! 1"
    using segs by simp
  have "edi = ?env @ (pre @ segs @ post)
           @ [se, seg [''GE'', ''1'', gcn_of (settings_of tables)],
              seg [''IEA'', ''1'', icn_of (settings_of tables)]]"
    unfolding edi se_def by (simp only: loops)
  then have shape: "edi = (?env @ pre) @ a # b # more"
    by (simp add: ab more_def)
  have "Suc (length (?env @ pre)) < length edi"
    by (subst shape) simp
  moreover have "edi ! length (?env @ pre) = a"
    by (subst shape) (simp only: nth_append_length)
  moreover have "edi ! Suc (length (?env @ pre)) = b"
    by (subst shape) (simp add: nth_append)
  ultimately show ?thesis
    unfolding a b'
    by (intro exI [of _ "length (?env @ pre)"]) (simp add: segs)
qed

text \<open>
  C4. The SSN test of the member loop is \<open>ssn.isdigit() and len(ssn) == 9\<close>, and
  \<open>str.isdigit\<close> accepts the superscript digits. For a subscriber whose SSN field is the
  nine characters U+00B9 U+00B2 U+00B3 \<open>456789\<close>, which are not nine decimal digits, both
  programs emit the \<open>NM1\<close> segment with the SSN qualifier \<open>34\<close> and that field as the
  identifier, where the claim asks for \<open>ZZ\<close> and the \<open>Subscriber_ID\<close>.
\<close>

theorem superscript_ssn_gets_ssn_qualifier:
  "length superscript_ssn = 9
   \<and> list_all re_digit superscript_ssn = False
   \<and> isdigit superscript_ssn
   \<and> field superscript_member ''Subscriber_SSN'' = superscript_ssn
   \<and> main superscript_tables example_now example_now = Inr superscript_edi
   \<and> generate_834_from_xlsx no_carry superscript_tables example_now example_now
       = Inr superscript_edi
   \<and> superscript_edi ! 8
       = seg [''NM1'', ''IL'', ''1'', ''DOE'', [], [], [], [], ''34'', superscript_ssn]"
  unfolding main_def generate_834_from_xlsx_def by code_simp

lemma yyyymmdd_empty: "yyyymmdd excel [] = Inr []"
  by (simp add: yyyymmdd_def strip_def)

lemma filter_append_if: "filter P (append_if c s) = append_if (c \<and> P s) s"
  by (simp add: append_if_def)

lemma append_if_False: "append_if False s = []"
  by (simp add: append_if_def)

lemma dependent_segments_alt:
  "dependent_segments excel pm sid cs ce pk d =
     (case yyyymmdd excel (field d ''Dep_DOB'') of
        Inl e \<Rightarrow> Inl e
      | Inr d_dob \<Rightarrow>
     (case yyyymmdd excel (field d ''Coverage_Start'') of
        Inl e \<Rightarrow> Inl e
      | Inr own_start \<Rightarrow>
     (case yyyymmdd excel (field d ''Coverage_End'') of
        Inl e \<Rightarrow> Inl e
      | Inr own_end \<Rightarrow>
          if or_else (field d ''Plan_Key'') pk = []
          then Inr (dep_own_segs sid d d_dob (or_else own_start cs) (or_else own_end ce))
          else case map_of pm (or_else (field d ''Plan_Key'') pk) of
                 None \<Rightarrow> Inl (plan_missing (or_else (field d ''Plan_Key'') pk))
               | Some prd \<Rightarrow>
                   Inr (dep_own_segs sid d d_dob (or_else own_start cs) (or_else own_end ce)
                        @ dep_plan_segs prd (or_else (field d ''Plan_Key'') pk)
                            (or_else own_start cs) (or_else own_end ce)))))"
  unfolding dependent_segments_def dep_own_segs_def dep_plan_segs_def Let_def
  by (simp split: sum.splits option.splits)

lemma filter_own_356:
  "filter (prefix ''DTP*356*'') (dep_own_segs sid d b s e) = append_if (s \<noteq> []) (seg [''DTP'', ''356'', ''D8'', s])"
  by (simp add: dep_own_segs_def filter_append_if seg_Cons2 ELEM_SEP_def append_if_False)

lemma filter_own_357:
  "filter (prefix ''DTP*357*'') (dep_own_segs sid d b s e) = append_if (e \<noteq> []) (seg [''DTP'', ''357'', ''D8'', e])"
  by (simp add: dep_own_segs_def filter_append_if seg_Cons2 ELEM_SEP_def append_if_False)

lemma filter_own_other:
  "filter (prefix ''DTP*348*'') (dep_own_segs sid d b s e) = []"
  "filter (prefix ''DTP*349*'') (dep_own_segs sid d b s e) = []"
  "filter (prefix ''HD*'') (dep_own_segs sid d b s e) = []"
  by (simp_all add: dep_own_segs_def filter_append_if seg_Cons2 ELEM_SEP_def append_if_False)

lemma filter_plan:
  "filter (prefix ''DTP*356*'') (dep_plan_segs prd k s e) = []"
  "filter (prefix ''DTP*357*'') (dep_plan_segs prd k s e) = []"
  "filter (prefix ''DTP*348*'') (dep_plan_segs prd k s e) = append_if (s \<noteq> []) (seg [''DTP'', ''348'', ''D8'', s])"
  "filter (prefix ''DTP*349*'') (dep_plan_segs prd k s e) = append_if (e \<noteq> []) (seg [''DTP'', ''349'', ''D8'', e])"
  "filter (prefix ''HD*'') (dep_plan_segs prd k s e)
     = [seg [''HD'', ''030'', [],
           or_else (field prd ''HD_Insurance_Line_Code'') (field prd ''Benefit_Type_Code''),
           or_else (field prd ''HD_Plan_Coverage_Desc'') k, []]]"
  by (simp_all add: dep_plan_segs_def filter_append_if seg_Cons2 ELEM_SEP_def append_if_False)

lemma member_segments_alt:
  "member_segments excel pm dbs m =
     (if field m ''Subscriber_ID'' = [] then Inr []
      else case yyyymmdd excel (field m ''Sub_DOB'') of
        Inl e \<Rightarrow> Inl e
      | Inr dob \<Rightarrow>
     (case yyyymmdd excel (field m ''Coverage_Start'') of
        Inl e \<Rightarrow> Inl e
      | Inr cov_start \<Rightarrow>
     (case yyyymmdd excel (field m ''Coverage_End'') of
        Inl e \<Rightarrow> Inl e
      | Inr cov_end \<Rightarrow>
          if field m ''Plan_Key'' \<noteq> [] \<and> map_of pm (field m ''Plan_Key'') = None
          then Inl (plan_missing (field m ''Plan_Key''))
          else case append_each
                      (dependent_segments excel pm (field m ''Subscriber_ID'') cov_start cov_end
                         (field m ''Plan_Key''))
                      (deps_for dbs (field m ''Subscriber_ID'')) of
                 Inl e \<Rightarrow> Inl e
               | Inr dep_segs \<Rightarrow>
                   Inr (sub_own_segs m dob cov_start cov_end
                        @ sub_plan_segs pm m cov_start cov_end @ dep_segs))))"
  unfolding member_segments_def sub_own_segs_def sub_plan_segs_def deps_for_def Let_def
  by (auto split: sum.splits option.splits)

lemma dependent_fallback:
  assumes "dependent_segments excel pm sid cs ce pk d = Inr dsegs"
  shows "(field d ''Coverage_Start'' = [] \<longrightarrow>
            filter (prefix ''DTP*356*'') dsegs
              = (if cs = [] then [] else [seg [''DTP'', ''356'', ''D8'', cs]])
          \<and> filter (prefix ''DTP*348*'') dsegs
              = (if cs = [] \<or> or_else (field d ''Plan_Key'') pk = [] then []
                 else [seg [''DTP'', ''348'', ''D8'', cs]]))
       \<and> (field d ''Coverage_End'' = [] \<longrightarrow>
            filter (prefix ''DTP*357*'') dsegs
              = (if ce = [] then [] else [seg [''DTP'', ''357'', ''D8'', ce]])
          \<and> filter (prefix ''DTP*349*'') dsegs
              = (if ce = [] \<or> or_else (field d ''Plan_Key'') pk = [] then []
                 else [seg [''DTP'', ''349'', ''D8'', ce]]))
       \<and> (field d ''Plan_Key'' = [] \<longrightarrow>
            (if pk = [] then filter (prefix ''HD*'') dsegs = []
             else \<exists>pr. map_of pm pk = Some pr
                  \<and> filter (prefix ''HD*'') dsegs
                    = [seg [''HD'', ''030'', [],
                            or_else (field pr ''HD_Insurance_Line_Code'') (field pr ''Benefit_Type_Code''),
                            or_else (field pr ''HD_Plan_Coverage_Desc'') pk, []]]))"
proof -
  define k where "k = or_else (field d ''Plan_Key'') pk"
  from assms obtain d_dob own_start own_end where
    s: "yyyymmdd excel (field d ''Coverage_Start'') = Inr own_start" and
    e: "yyyymmdd excel (field d ''Coverage_End'') = Inr own_end" and
    r: "(if k = []
          then Inr (dep_own_segs sid d d_dob (or_else own_start cs) (or_else own_end ce))
          else case map_of pm k of
                 None \<Rightarrow> Inl (plan_missing k)
               | Some prd \<Rightarrow>
                   Inr (dep_own_segs sid d d_dob (or_else own_start cs) (or_else own_end ce)
                        @ dep_plan_segs prd k (or_else own_start cs) (or_else own_end ce)))
        = Inr dsegs"
    unfolding dependent_segments_alt k_def
    by (auto split: sum.splits)
  have s0: "or_else own_start cs = cs" if "field d ''Coverage_Start'' = []"
    using s that by (simp add: yyyymmdd_empty or_else_def)
  have e0: "or_else own_end ce = ce" if "field d ''Coverage_End'' = []"
    using e that by (simp add: yyyymmdd_empty or_else_def)
  have k0: "k = pk" if "field d ''Plan_Key'' = []"
    using that by (simp add: k_def or_else_def)
  show ?thesis
  proof (cases "k = []")
    case True
    with r have d: "dsegs = dep_own_segs sid d d_dob (or_else own_start cs) (or_else own_end ce)"
      by simp
    show ?thesis
      unfolding d k_def [symmetric]
      using True k0
      by (auto simp: filter_own_356 filter_own_357 filter_own_other s0 e0 append_if_def)
  next
    case False
    with r obtain prd where p: "map_of pm k = Some prd" and
      d: "dsegs = dep_own_segs sid d d_dob (or_else own_start cs) (or_else own_end ce)
                  @ dep_plan_segs prd k (or_else own_start cs) (or_else own_end ce)"
      by (cases "map_of pm k") auto
    show ?thesis
      unfolding d k_def [symmetric]
      using False k0 p
      by (auto simp: filter_own_356 filter_own_357 filter_own_other filter_plan s0 e0
          append_if_def)
  qed
qed

text \<open>
  C5. Take a dependent processed under a subscriber, whose normalized coverage dates are
  \<open>cov_start\<close> and \<open>cov_end\<close>. When the dependent's own \<open>Coverage_Start\<close> is empty, its
  \<open>DTP*356\<close> segment (and its \<open>DTP*348\<close> segment, present when a plan applies) carries the
  subscriber's \<open>cov_start\<close>, and there is none when \<open>cov_start\<close> is empty as well; likewise
  for \<open>Coverage_End\<close> with \<open>DTP*357\<close> and \<open>DTP*349\<close>. When the dependent's own
  \<open>Plan_Key\<close> is empty, its \<open>HD\<close> segment is rendered from the subscriber's plan, and
  there is none when the subscriber has no plan key either.
\<close>

theorem dependent_inherits_subscriber_values:
  assumes "member_segments excel pm dbs m = Inr segs"
    and "field m ''Subscriber_ID'' \<noteq> []"
    and "d \<in> set (deps_for dbs (field m ''Subscriber_ID''))"
  shows "\<exists>cov_start cov_end dsegs pre post.
       yyyymmdd excel (field m ''Coverage_Start'') = Inr cov_start
     \<and> yyyymmdd excel (field m ''Coverage_End'') = Inr cov_end
     \<and> dependent_segments excel pm (field m ''Subscriber_ID'') cov_start cov_end
           (field m ''Plan_Key'') d = Inr dsegs
     \<and> segs = pre @ dsegs @ post
     \<and> (field d ''Coverage_Start'' = [] \<longrightarrow>
            filter (prefix ''DTP*356*'') dsegs
              = (if cov_start = [] then [] else [seg [''DTP'', ''356'', ''D8'', cov_start]])
          \<and> filter (prefix ''DTP*348*'') dsegs
              = (if cov_start = [] \<or> or_else (field d ''Plan_Key'') (field m ''Plan_Key'') = []
                 then [] else [seg [''DTP'', ''348'', ''D8'', cov_start]]))
     \<and> (field d ''Coverage_End'' = [] \<longrightarrow>
            filter (prefix ''DTP*357*'') dsegs
              = (if cov_end = [] then [] else [seg [''DTP'', ''357'', ''D8'', cov_end]])
          \<and> filter (prefix ''DTP*349*'') dsegs
              = (if cov_end = [] \<or> or_else (field d ''Plan_Key'') (field m ''Plan_Key'') = []
                 then [] else [seg [''DTP'', ''349'', ''D8'', cov_end]]))
     \<and> (field d ''Plan_Key'' = [] \<longrightarrow>
            (if field m ''Plan_Key'' = [] then filter (prefix ''HD*'') dsegs = []
             else \<exists>pr. map_of pm (field m ''Plan_Key'') = Some pr
                  \<and> filter (prefix ''HD*'') dsegs
                    = [seg [''HD'', ''030'', [],
                            or_else (field pr ''HD_Insurance_Line_Code'')
                                    (field pr ''Benefit_Type_Code''),
                            or_else (field pr ''HD_Plan_Coverage_Desc'') (field m ''Plan_Key''),
                            []]]))"
proof -
  from assms(1,2) obtain dob cov_start cov_end dep_segs where
    cs: "yyyymmdd excel (field m ''Coverage_Start'') = Inr cov_start" and
    ce: "yyyymmdd excel (field m ''Coverage_End'') = Inr cov_end" and
    loop: "append_each
             (dependent_segments excel pm (field m ''Subscriber_ID'') cov_start cov_end
                (field m ''Plan_Key''))
             (deps_for dbs (field m ''Subscriber_ID'')) = Inr dep_segs" and
    segs: "segs = sub_own_segs m dob cov_start cov_end
                  @ sub_plan_segs pm m cov_start cov_end @ dep_segs"
    unfolding member_segments_alt
    by (auto split: sum.splits if_splits)
  from loop assms(3) obtain pre dsegs post where
    d: "dependent_segments excel pm (field m ''Subscriber_ID'') cov_start cov_end
          (field m ''Plan_Key'') d = Inr dsegs" and
    dep_segs: "dep_segs = pre @ dsegs @ post"
    by (rule append_each_mem)
  have "segs = (sub_own_segs m dob cov_start cov_end
                @ sub_plan_segs pm m cov_start cov_end @ pre) @ dsegs @ post"
    by (simp add: segs dep_segs)
  with cs ce d dependent_fallback [OF d] show ?thesis
    by blast
qed



lemma yyyymmdd_error: "yyyymmdd excel v = Inl e \<Longrightarrow> e = bad_date (strip v)"
  unfolding yyyymmdd_def Let_def
  by (simp split: if_splits option.splits prod.splits)











theorem dependent_inherits_subscriber_values_witness:
  "member_segments excel_nolibs (build_plan_map (table_of example_tables ''Plans''))
       (index_deps (table_of example_tables ''Dependents'')) example_member
     = Inr (take 10 (drop 7 example_edi))
   \<and> field example_member ''Subscriber_ID'' = ''1001''
   \<and> example_dependent \<in> set (deps_for (index_deps (table_of example_tables ''Dependents''))
                                   (field example_member ''Subscriber_ID''))
   \<and> field example_dependent ''Coverage_Start'' = []
   \<and> field example_dependent ''Coverage_End'' = []
   \<and> field example_dependent ''Plan_Key'' = []
   \<and> dependent_segments excel_nolibs (build_plan_map (table_of example_tables ''Plans''))
       ''1001'' ''20240101'' [] ''P1'' example_dependent
     = Inr [''INS*N*19*001*XN*A*E~'', ''NM1*IL*1******ZZ*1001-1~'', ''DTP*356*D8*20240101~'',
            ''HD*030**HLT*P1*~'', ''DTP*348*D8*20240101~'']
   \<and> (\<exists>cov_start cov_end dsegs pre post.
       yyyymmdd excel_nolibs (field example_member ''Coverage_Start'') = Inr cov_start
     \<and> yyyymmdd excel_nolibs (field example_member ''Coverage_End'') = Inr cov_end
     \<and> dependent_segments excel_nolibs (build_plan_map (table_of example_tables ''Plans''))
           (field example_member ''Subscriber_ID'') cov_start cov_end
           (field example_member ''Plan_Key'') example_dependent = Inr dsegs
     \<and> take 10 (drop 7 example_edi) = pre @ dsegs @ post
     \<and> (field example_dependent ''Coverage_Start'' = [] \<longrightarrow>
            filter (prefix ''DTP*356*'') dsegs
              = (if cov_start = [] then [] else [seg [''DTP'', ''356'', ''D8'', cov_start]])
          \<and> filter (prefix ''DTP*348*'') dsegs
              = (if cov_start = []
                    \<or> or_else (field example_dependent ''Plan_Key'')
                               (field example_member ''Plan_Key'') = []
                 then [] else [seg [''DTP'', ''348'', ''D8'', cov_start]]))
     \<and> (field example_dependent ''Coverage_End'' = [] \<longrightarrow>
            filter (prefix ''DTP*357*'') dsegs
              = (if cov_end = [] then [] else [seg [''DTP'', ''357'', ''D8'', cov_end]])
          \<and> filter (prefix ''DTP*349*'') dsegs
              = (if cov_end = []
                    \<or> or_else (field example_dependent ''Plan_Key'')
                               (field example_member ''Plan_Key'') = []
                 then [] else [seg [''DTP'', ''349'', ''D8'', cov_end]]))
     \<and> (field example_dependent ''Plan_Key'' = [] \<longrightarrow>
            (if field example_member ''Plan_Key'' = [] then filter (prefix ''HD*'') dsegs = []
             else \<exists>pr. map_of (build_plan_map (table_of example_tables ''Plans''))
                           (field example_member ''Plan_Key'') = Some pr
                  \<and> filter (prefix ''HD*'') dsegs
                    = [seg [''HD'', ''030'', [],
                            or_else (field pr ''HD_Insurance_Line_Code'')
                                    (field pr ''Benefit_Type_Code''),
                            or_else (field pr ''HD_Plan_Coverage_Desc'')
                                    (field example_member ''Plan_Key''),
                            []]])))"
proof -
  have r: "member_segments excel_nolibs (build_plan_map (table_of example_tables ''Plans''))
       (index_deps (table_of example_tables ''Dependents'')) example_member
     = Inr (take 10 (drop 7 example_edi))"
    by code_simp
  have f: "field example_member ''Subscriber_ID'' = ''1001''" by code_simp
  then have ne: "field example_member ''Subscriber_ID'' \<noteq> []" by simp
  have d: "example_dependent \<in> set (deps_for (index_deps (table_of example_tables ''Dependents''))
                                   (field example_member ''Subscriber_ID''))"
    by code_simp
  have e: "field example_dependent ''Coverage_Start'' = []
   \<and> field example_dependent ''Coverage_End'' = []
   \<and> field example_dependent ''Plan_Key'' = []
   \<and> dependent_segments excel_nolibs (build_plan_map (table_of example_tables ''Plans''))
       ''1001'' ''20240101'' [] ''P1'' example_dependent
     = Inr [''INS*N*19*001*XN*A*E~'', ''NM1*IL*1******ZZ*1001-1~'', ''DTP*356*D8*20240101~'',
            ''HD*030**HLT*P1*~'', ''DTP*348*D8*20240101~'']"
    by code_simp
  from r f d e dependent_inherits_subscriber_values [OF r ne d]
  show ?thesis by blast
qed

section \<open>Properties of the spreadsheet reader\<close>







lemma spec_record_dom:
  "dom (spec_record cells r) = (\<lambda>c. cell_at cells 1 c) ` set (retained_columns cells)"
  by (simp add: spec_record_def dom_map_of_conv_image_fst image_image)

lemma spec_record_value:
  assumes "distinct (map (\<lambda>c. cell_at cells 1 c) (retained_columns cells))"
    and "c \<in> set (retained_columns cells)"
  shows "spec_record cells r (cell_at cells 1 c) = Some (cell_at cells r c)"
proof -
  let ?kvs = "rev (map (\<lambda>c. (cell_at cells 1 c, cell_at cells r c)) (retained_columns cells))"
  have "distinct (map fst ?kvs)"
    using assms(1) by (simp add: rev_map [symmetric] comp_def)
  moreover have "(cell_at cells 1 c, cell_at cells r c) \<in> set ?kvs"
    using assms(2) by auto
  ultimately show ?thesis
    unfolding spec_record_def by (rule map_of_is_SomeI)
qed


lemma shared_index_in_range:
  assumes "py_int raw = Some i" and "0 \<le> i" and "i < int (length shared_strings)"
  shows "cell_value shared_strings ''s'' (Some raw) = shared_strings ! nat i"
  using assms by (simp add: cell_value_def list_get_def)

lemma shared_index_too_large:
  assumes "py_int raw = Some i" and "int (length shared_strings) \<le> i"
  shows "cell_value shared_strings ''s'' (Some raw) = raw"
  using assms by (simp add: cell_value_def list_get_def)

lemma shared_index_negative:
  assumes "py_int raw = Some i" and "i < 0" and "- int (length shared_strings) \<le> i"
  shows "cell_value shared_strings ''s'' (Some raw)
         = shared_strings ! nat (int (length shared_strings) + i)"
  using assms by (simp add: cell_value_def list_get_def)

text \<open>
  C9. The shared-string lookup is \<open>shared_strings[int(raw)]\<close> under \<open>except Exception\<close>, and
  a negative index counts from the end of the list. For a cell of type \<open>s\<close> whose value
  is \<open>-1\<close>, an index outside the bounds of a table of two shared strings, the grid holds
  the last shared string, where the claim asks for the raw text \<open>-1\<close>. An index beyond the
  end is kept as raw text, and an index within the bounds is resolved.
\<close>

theorem negative_shared_index_wraps:
  "py_int ''-1'' = Some (- 1)
   \<and> cell_value [''alpha'', ''beta''] ''s'' (Some ''-1'') = ''beta''
   \<and> map_of (parse_sheet [''alpha'', ''beta'']
               [\<lparr>cell_r = ''A1'', cell_t = ''s'', cell_v = Some ''-1''\<rparr>]) (1, 1)
     = Some ''beta''
   \<and> cell_value [''alpha'', ''beta''] ''s'' (Some ''2'') = ''2''
   \<and> cell_value [''alpha'', ''beta''] ''s'' (Some ''1'') = ''beta''"
  by code_simp

end
